theory Spec2Isabelle
  imports Complex_Main "HOL-Library.Sublist" "HOL-Library.Multiset" "HOL-Library.Product_Lexorder"
begin

section \<open>JavaScript values and built-ins used by the retrieval code\<close>

text \<open>
  A JSON value as \<^verbatim>\<open>req.json()\<close> and \<^verbatim>\<open>ragRes.json()\<close> deliver it, plus \<^verbatim>\<open>undefined\<close> for an absent
  property. Numbers are read as reals: JSON has no NaN.
\<close>

datatype jsval =
    JUndefined
  | JNull
  | JBool bool
  | JNum real
  | JStr string
  | JArr "jsval list"
  | JObj "(string \<times> jsval) list"

text \<open>ToBoolean: what \<^verbatim>\<open>!question\<close> and \<^verbatim>\<open>if (ragData.context)\<close> test.\<close>

fun truthy :: "jsval \<Rightarrow> bool" where
  "truthy JUndefined = False"
| "truthy JNull = False"
| "truthy (JBool b) = b"
| "truthy (JNum r) = (r \<noteq> 0)"
| "truthy (JStr s) = (s \<noteq> [])"
| "truthy (JArr _) = True"
| "truthy (JObj _) = True"

fun typeof :: "jsval \<Rightarrow> string" where
  "typeof JUndefined = ''undefined''"
| "typeof JNull = ''object''"
| "typeof (JBool _) = ''boolean''"
| "typeof (JNum _) = ''number''"
| "typeof (JStr _) = ''string''"
| "typeof (JArr _) = ''object''"
| "typeof (JObj _) = ''object''"

text \<open>The characters of a value already known to be a string.\<close>

fun str_of :: "jsval \<Rightarrow> string" where
  "str_of (JStr s) = s"
| "str_of _ = []"

text \<open>
  Property read \<^verbatim>\<open>v.k\<close>: a TypeError (\<open>None\<close>) on \<^verbatim>\<open>null\<close> and \<^verbatim>\<open>undefined\<close>, the last binding of the
  key in an object (as JSON.parse keeps it), \<^verbatim>\<open>undefined\<close> otherwise.
\<close>

fun get_prop :: "jsval \<Rightarrow> string \<Rightarrow> jsval option" where
  "get_prop JUndefined k = None"
| "get_prop JNull k = None"
| "get_prop (JObj kvs) k =
     Some (case map_of (rev kvs) k of None \<Rightarrow> JUndefined | Some v \<Rightarrow> v)"
| "get_prop _ k = Some JUndefined"

text \<open>
  ToString inside a template literal: a string is itself; the rendering of every other
  value is the parameter \<open>fmt\<close>.
\<close>

definition ToString :: "(jsval \<Rightarrow> string) \<Rightarrow> jsval \<Rightarrow> string" where
  "ToString fmt v = (case v of JStr s \<Rightarrow> s | _ \<Rightarrow> fmt v)"

section \<open>Numbers and the sort of the runtime\<close>

text \<open>
  A similarity score as the comparator of the sort sees it: a Number that is NaN, infinite
  or finite. A finite one is a real; of the results of arithmetic on scores the code uses
  the sign only, which rounding keeps.
\<close>

datatype jsnum = NaN | NegInf | Fin real | PosInf

text \<open>The subtraction \<^verbatim>\<open>x - y\<close> of two Numbers.\<close>

fun js_sub :: "jsnum \<Rightarrow> jsnum \<Rightarrow> jsnum" where
  "js_sub NaN y = NaN"
| "js_sub x NaN = NaN"
| "js_sub (Fin x) (Fin y) = Fin (x - y)"
| "js_sub (Fin x) PosInf = NegInf"
| "js_sub (Fin x) NegInf = PosInf"
| "js_sub PosInf PosInf = NaN"
| "js_sub PosInf y = PosInf"
| "js_sub NegInf NegInf = NaN"
| "js_sub NegInf y = NegInf"

text \<open>The division \<^verbatim>\<open>x / y\<close> of a real by a real that is not negative zero.\<close>

definition js_div :: "real \<Rightarrow> real \<Rightarrow> jsnum" where
  "js_div x y =
     (if y \<noteq> 0 then Fin (x / y)
      else if x = 0 then NaN
      else if 0 < x then PosInf
      else NegInf)"

text \<open>The comparison \<^verbatim>\<open>x >= y\<close>: false as soon as one side is NaN.\<close>

fun js_ge :: "jsnum \<Rightarrow> jsnum \<Rightarrow> bool" where
  "js_ge NaN y = False"
| "js_ge x NaN = False"
| "js_ge PosInf y = True"
| "js_ge x NegInf = True"
| "js_ge (Fin x) (Fin y) = (y \<le> x)"
| "js_ge (Fin x) PosInf = False"
| "js_ge NegInf y = False"

text \<open>
  The test \<^verbatim>\<open>order < 0\<close> that the sort makes on the result of the comparator, which it reads
  as 0 when it is NaN.
\<close>

fun negative :: "jsnum \<Rightarrow> bool" where
  "negative NaN = False"
| "negative NegInf = True"
| "negative (Fin r) = (r < 0)"
| "negative PosInf = False"

text \<open>
  \<^verbatim>\<open>Array.prototype.sort(cmp)\<close> as V8, the engine of Node, runs it on an array of fewer than 64
  elements. It takes the longest run at the start of the array, along which either every
  element compares below its predecessor (the run is then reversed) or none does, and puts
  each later element into the sorted part at the place a binary search finds. A longer
  array is cut into such runs, which are merged; for a consistent comparator the language
  fixes the result, the stable arrangement, whatever the length, and for another one the
  arrangement of a longer array is outside this model. \<open>run_length\<close> counts the elements
  that continue the run after \<open>previous\<close>.
\<close>

fun run_length :: "('a \<Rightarrow> 'a \<Rightarrow> jsnum) \<Rightarrow> bool \<Rightarrow> 'a \<Rightarrow> 'a list \<Rightarrow> nat" where
  "run_length cmp descending previous [] = 0"
| "run_length cmp descending previous (current # rest) =
     (if negative (cmp current previous) = descending
      then Suc (run_length cmp descending current rest)
      else 0)"

text \<open>The place of \<open>pivot\<close> in the sorted part \<open>work\<close>, searched between \<open>left\<close> and \<open>right\<close>.\<close>

function binary_search :: "('a \<Rightarrow> 'a \<Rightarrow> jsnum) \<Rightarrow> 'a \<Rightarrow> 'a list \<Rightarrow> nat \<Rightarrow> nat \<Rightarrow> nat" where
  "binary_search cmp pivot work left right =
     (if left < right
      then let mid = left + (right - left) div 2
           in if negative (cmp pivot (work ! mid))
              then binary_search cmp pivot work left mid
              else binary_search cmp pivot work (mid + 1) right
      else left)"
  by pat_completeness auto
termination
  by (relation "measure (\<lambda>(cmp, pivot, work, left, right). right - left)") auto

declare binary_search.simps [simp del]

fun binary_insertion :: "('a \<Rightarrow> 'a \<Rightarrow> jsnum) \<Rightarrow> 'a list \<Rightarrow> 'a list \<Rightarrow> 'a list" where
  "binary_insertion cmp work [] = work"
| "binary_insertion cmp work (pivot # rest) =
     (let left = binary_search cmp pivot work 0 (length work)
      in binary_insertion cmp (take left work @ pivot # drop left work) rest)"

fun js_sort :: "('a \<Rightarrow> 'a \<Rightarrow> jsnum) \<Rightarrow> 'a list \<Rightarrow> 'a list" where
  "js_sort cmp (low # high # rest) =
     (let descending = negative (cmp high low);
          n = run_length cmp descending high rest;
          run = low # high # take n rest
      in binary_insertion cmp (if descending then rev run else run) (drop n rest))"
| "js_sort cmp xs = xs"

text \<open>
  \<^verbatim>\<open>Array.prototype.slice(start, end)\<close> on integer arguments: a negative index counts from
  the end, both are clamped to the array, and an empty range gives the empty array.
\<close>

definition js_slice :: "'a list \<Rightarrow> int \<Rightarrow> int \<Rightarrow> 'a list" where
  "js_slice xs start fin =
     (let len = int (length xs);
          k = (if start < 0 then max (len + start) 0 else min start len);
          final = (if fin < 0 then max (len + fin) 0 else min fin len);
          count = max (final - k) 0
      in take (nat count) (drop (nat k) xs))"

text \<open>\<^verbatim>\<open>Array.prototype.join(sep)\<close> on an array of strings.\<close>

fun js_join :: "string list \<Rightarrow> string \<Rightarrow> string" where
  "js_join [] sep = []"
| "js_join [x] sep = x"
| "js_join (x # y # ys) sep = x @ sep @ js_join (y # ys) sep"

text \<open>
  \<^verbatim>\<open>String.prototype.trim\<close>, on the white space and line terminators that fit in one byte.
\<close>

definition is_white_space :: "char \<Rightarrow> bool" where
  "is_white_space c =
     (c \<in> set [CHR 0x09, CHR 0x0A, CHR 0x0B, CHR 0x0C, CHR 0x0D, CHR 0x20, CHR 0xA0])"

definition js_trim :: "string \<Rightarrow> string" where
  "js_trim s = rev (dropWhile is_white_space (rev (dropWhile is_white_space s)))"

section \<open>Data model of the retrieval core\<close>

record SyllabusChunk =
  chunk_id :: int
  "text" :: string
  embedding :: "real list"

text \<open>The object \<^verbatim>\<open>{ ...chunk, similarity }\<close>.\<close>

record ScoredChunk = SyllabusChunk +
  similarity :: jsnum

text \<open>The object \<^verbatim>\<open>{ chunk_id, text, similarity }\<close> of the response: it has no embedding.\<close>

record TopChunk =
  top_chunk_id :: int
  top_text :: string
  top_similarity :: jsnum

text \<open>
  The object the code returns or hands to \<^verbatim>\<open>NextResponse.json\<close>, before it is written as JSON.
\<close>

record RetrievalResult =
  topChunks :: "TopChunk list"
  "context" :: string
  question :: string

text \<open>
  What \<^verbatim>\<open>JSON.parse\<close> makes of the corpus file: an array of chunks, or a value that is no
  array, on which \<^verbatim>\<open>chunks.map\<close> throws a TypeError with the given message.
\<close>

datatype parsed_corpus = NotArray string | Chunks "SyllabusChunk list"

text \<open>
  What a run can observe outside itself: the credential \<^verbatim>\<open>process.env.OPENAI_API_KEY\<close>, the
  outcome of reading and parsing the corpus file (\<open>Inl\<close> the message of the error thrown by
  \<^verbatim>\<open>fs.readFile\<close> or \<^verbatim>\<open>JSON.parse\<close>), and the outcome of the remote embedding request for a
  text (\<open>Inl\<close> the message of whatever it throws, a malformed response included).
\<close>

record env =
  OPENAI_API_KEY :: "string option"
  corpus_file :: "string + parsed_corpus"
  embeddings_create :: "string \<Rightarrow> string + real list"

text \<open>The external calls a run makes, in order.\<close>

datatype event = ReadFile | EmbeddingsCreate string

text \<open>The destructured request body \<^verbatim>\<open>{ question, topK }\<close>; \<open>None\<close> is an absent \<^verbatim>\<open>topK\<close>.\<close>

record rag_request =
  req_question :: jsval
  req_topK :: "int option"

datatype response_body = ErrorBody string | ResultBody RetrievalResult

record response =
  status :: nat
  body :: response_body

type_synonym similarity_fn = "real list \<Rightarrow> real list \<Rightarrow> jsnum"

section \<open>Cosine similarity\<close>

text \<open>
  Modelled from the spec: the dot product that \<^verbatim>\<open>cosineSimilarity\<close> divides, over the reals and
  over the common prefix of the two vectors.
\<close>

definition dot :: "real list \<Rightarrow> real list \<Rightarrow> real" where
  "dot a b = sum_list (map2 (*) a b)"

text \<open>Modelled from the spec: the magnitude of a vector, the root of its dot product with itself.\<close>

definition magnitude :: "real list \<Rightarrow> real" where
  "magnitude a = sqrt (dot a a)"

text \<open>
  Modelled from the spec: \<^verbatim>\<open>cosineSimilarity\<close> of \<^verbatim>\<open>@/lib/utils\<close> is not among the sources. The
  spec gives it as the dot product divided by the product of the two vectors' magnitudes,
  unguarded against a zero magnitude, where the division yields NaN. Dot product and
  magnitudes are taken over the reals, without rounding. The retrieval functions below take
  the similarity function as a parameter.
\<close>

definition cosineSimilarity :: similarity_fn where
  "cosineSimilarity a b = js_div (dot a b) (magnitude a * magnitude b)"

section \<open>The embedder\<close>

text \<open>
  Module level, in the route and in the library:
  \<^verbatim>\<open>const openai = new OpenAI({ apiKey: process.env.OPENAI_API_KEY })\<close>. The constructor of the
  SDK throws when the key is undefined, that is when the variable is unset while the module
  is loaded; it takes every string, the empty one too.
\<close>

definition module_loads :: "env \<Rightarrow> bool" where
  "module_loads e = (OPENAI_API_KEY e \<noteq> None)"

text \<open>What a module answers: nothing when its load has thrown, else what its function does.\<close>

definition served :: "env \<Rightarrow> 'a \<Rightarrow> 'a option" where
  "served e answer = (if module_loads e then Some answer else None)"

text \<open>\<^verbatim>\<open>!process.env.OPENAI_API_KEY\<close> holds for an unset and for an empty variable.\<close>

definition key_missing :: "env \<Rightarrow> bool" where
  "key_missing e = (case OPENAI_API_KEY e of None \<Rightarrow> True | Some k \<Rightarrow> k = [])"

definition getEmbedding :: "env \<Rightarrow> string \<Rightarrow> (string + real list) \<times> event list" where
  "getEmbedding e txt =
     (if key_missing e then (Inl ''OPENAI_API_KEY not set in environment'', [])
      else (embeddings_create e txt, [EmbeddingsCreate txt]))"

section \<open>The retrieval pipeline\<close>

text \<open>
  The handler of \<^verbatim>\<open>/api/rag\<close> with the pipeline inline. The argument is the outcome of
  \<^verbatim>\<open>req.json()\<close>; the result is the response and the external calls made.
\<close>

definition POST :: "similarity_fn \<Rightarrow> env \<Rightarrow> string + rag_request \<Rightarrow> response \<times> event list" where
  "POST sim e req =
     (case req of
        Inl err \<Rightarrow> (\<lparr>status = 500, body = ErrorBody err\<rparr>, [])
      | Inr b \<Rightarrow>
          let question = req_question b;
              topK = (case req_topK b of None \<Rightarrow> 4 | Some k \<Rightarrow> k)
          in if \<not> truthy question \<or> typeof question \<noteq> ''string''
             then (\<lparr>status = 400, body = ErrorBody ''Missing or invalid question''\<rparr>, [])
             else
               (case corpus_file e of
                  Inl err \<Rightarrow> (\<lparr>status = 500, body = ErrorBody err\<rparr>, [ReadFile])
                | Inr parsed \<Rightarrow>
                    (case getEmbedding e (str_of question) of
                       (Inl _, evs) \<Rightarrow>
                         (\<lparr>status = 500, body = ErrorBody ''Embedding API not implemented''\<rparr>,
                          ReadFile # evs)
                     | (Inr questionEmbedding, evs) \<Rightarrow>
                         (case parsed of
                            NotArray err \<Rightarrow>
                              (\<lparr>status = 500, body = ErrorBody err\<rparr>, ReadFile # evs)
                          | Chunks chunks \<Rightarrow>
                              let similarities =
                                    map (\<lambda>chunk. SyllabusChunk.extend chunk
                                           \<lparr>similarity = sim questionEmbedding (embedding chunk)\<rparr>)
                                      chunks;
                                  sorted_chunks =
                                    js_sort (\<lambda>a b. js_sub (similarity b) (similarity a))
                                      similarities;
                                  top = js_slice sorted_chunks 0 topK;
                                  ctx = js_join (map text top) [CHR 0x0A, CHR ''-'', CHR ''-'', CHR ''-'', CHR 0x0A]
                              in (\<lparr>status = 200,
                                   body = ResultBody
                                     \<lparr>topChunks =
                                        map (\<lambda>c. \<lparr>top_chunk_id = chunk_id c, top_text = text c,
                                                   top_similarity = similarity c\<rparr>) top,
                                      context = ctx,
                                      question = str_of question\<rparr>\<rparr>,
                                  ReadFile # evs)))))"

text \<open>The body of the \<^verbatim>\<open>try\<close> block of \<^verbatim>\<open>getRAGContext\<close>: \<open>Inl\<close> is the message of the Error thrown.\<close>

definition getRAGContext_try ::
  "similarity_fn \<Rightarrow> env \<Rightarrow> jsval \<Rightarrow> int option \<Rightarrow> (string + RetrievalResult) \<times> event list" where
  "getRAGContext_try sim e question_arg topK_arg =
     (let question = question_arg;
          topK = (case topK_arg of None \<Rightarrow> 4 | Some k \<Rightarrow> k)
      in if \<not> truthy question \<or> typeof question \<noteq> ''string''
         then (Inl ''Missing or invalid question'', [])
         else
           (case corpus_file e of
              Inl err \<Rightarrow> (Inl err, [ReadFile])
            | Inr parsed \<Rightarrow>
                (case getEmbedding e (str_of question) of
                   (Inl _, evs) \<Rightarrow> (Inl ''Failed to get embedding for question'', ReadFile # evs)
                 | (Inr questionEmbedding, evs) \<Rightarrow>
                     (case parsed of
                        NotArray err \<Rightarrow> (Inl err, ReadFile # evs)
                      | Chunks chunks \<Rightarrow>
                          let similarities =
                                map (\<lambda>chunk. SyllabusChunk.extend chunk
                                       \<lparr>similarity = sim questionEmbedding (embedding chunk)\<rparr>)
                                  chunks;
                              sorted_chunks =
                                js_sort (\<lambda>a b. js_sub (similarity b) (similarity a)) similarities;
                              top = js_slice sorted_chunks 0 topK;
                              ctx = js_join (map text top) [CHR 0x0A, CHR ''-'', CHR ''-'', CHR ''-'', CHR 0x0A]
                          in (Inr \<lparr>topChunks =
                                     map (\<lambda>c. \<lparr>top_chunk_id = chunk_id c, top_text = text c,
                                                top_similarity = similarity c\<rparr>) top,
                                   context = ctx,
                                   question = str_of question\<rparr>,
                              ReadFile # evs)))))"

text \<open>\<^verbatim>\<open>getRAGContext\<close>: its \<^verbatim>\<open>catch\<close> rethrows every error under one prefix.\<close>

definition getRAGContext ::
  "similarity_fn \<Rightarrow> env \<Rightarrow> jsval \<Rightarrow> int option \<Rightarrow> (string + RetrievalResult) \<times> event list" where
  "getRAGContext sim e question_arg topK_arg =
     (case getRAGContext_try sim e question_arg topK_arg of
        (Inl err, evs) \<Rightarrow> (Inl (''RAG processing failed: '' @ err), evs)
      | (Inr result, evs) \<Rightarrow> (Inr result, evs))"

text \<open>The handler of \<^verbatim>\<open>/api/rag\<close> in its other form, which calls \<^verbatim>\<open>getRAGContext\<close>.\<close>

definition POST_delegating ::
  "similarity_fn \<Rightarrow> env \<Rightarrow> string + rag_request \<Rightarrow> response \<times> event list" where
  "POST_delegating sim e req =
     (case req of
        Inl err \<Rightarrow> (\<lparr>status = 500, body = ErrorBody err\<rparr>, [])
      | Inr b \<Rightarrow>
          let question = req_question b;
              topK = (case req_topK b of None \<Rightarrow> 4 | Some k \<Rightarrow> k)
          in (case getRAGContext sim e question (Some topK) of
                (Inl err, evs) \<Rightarrow> (\<lparr>status = 500, body = ErrorBody err\<rparr>, evs)
              | (Inr result, evs) \<Rightarrow> (\<lparr>status = 200, body = ResultBody result\<rparr>, evs)))"

section \<open>The retrieval step of the chat endpoint\<close>

record message_part =
  part_type :: string
  part_text :: string

text \<open>
  The response of \<^verbatim>\<open>fetch\<close>: its status, what \<^verbatim>\<open>json()\<close> resolves to and what \<^verbatim>\<open>text()\<close> resolves
  to (\<open>None\<close> when the call rejects).
\<close>

record fetch_response =
  res_status :: nat
  res_json :: "jsval option"
  res_text :: "string option"

datatype fetch_outcome = FetchRejects string | FetchResolves fetch_response

definition ok :: "fetch_response \<Rightarrow> bool" where
  "ok r = (200 \<le> res_status r \<and> res_status r \<le> 299)"

definition context_intro :: string where
  "context_intro =
     [CHR 0x0A, CHR 0x0A] @
     ''IMPORTANT: Use the following course information to answer the user's question. If the information is relevant to their question, base your answer on this context:'' @
     [CHR 0x0A, CHR 0x0A]"

definition context_outro :: string where
  "context_outro =
     [CHR 0x0A, CHR 0x0A] @
     ''When answering, reference specific details from the provided course information when applicable.''"

text \<open>The text parts of the user's message, joined with a blank.\<close>

definition userMessageText :: "message_part list \<Rightarrow> string" where
  "userMessageText parts =
     js_join (map part_text (filter (\<lambda>part. part_type part = ''text'') parts)) '' ''"

text \<open>
  Lines 170 to 212 of the chat handler: the value of \<^verbatim>\<open>ragContext\<close> after the \<^verbatim>\<open>try\<close> block.
  Every throw inside the block lands in its \<^verbatim>\<open>catch\<close>, which only logs; so does the branch
  of a status outside the 200 range, whether \<^verbatim>\<open>text()\<close> resolves or rejects.
\<close>

definition ragContext_of ::
  "(jsval \<Rightarrow> string) \<Rightarrow> (string \<Rightarrow> fetch_outcome) \<Rightarrow> message_part list \<Rightarrow> string" where
  "ragContext_of fmt fetch parts =
     (if js_trim (userMessageText parts) \<noteq> []
         then
           (case fetch (userMessageText parts) of
              FetchRejects _ \<Rightarrow> []
            | FetchResolves ragRes \<Rightarrow>
                if ok ragRes
                then
                  (case res_json ragRes of
                     None \<Rightarrow> []
                   | Some ragData \<Rightarrow>
                       (case get_prop ragData ''context'' of
                          None \<Rightarrow> []
                        | Some c \<Rightarrow>
                            if truthy c
                            then context_intro @ ToString fmt c @ context_outro
                            else []))
                else
                  (case res_text ragRes of
                     None \<Rightarrow> []
                   | Some errorText \<Rightarrow> []))
         else [])"

text \<open>
  The call the handler goes on to after the retrieval step, with its \<^verbatim>\<open>system\<close> argument;
  \<open>base\<close> is the value of \<^verbatim>\<open>systemPrompt({ selectedChatModel, requestHints })\<close>.
\<close>

datatype llm_call = StreamText string

definition chat_after_retrieval ::
  "string \<Rightarrow> (jsval \<Rightarrow> string) \<Rightarrow> (string \<Rightarrow> fetch_outcome) \<Rightarrow> message_part list \<Rightarrow> llm_call" where
  "chat_after_retrieval base fmt fetch parts =
     StreamText (base @ ragContext_of fmt fetch parts)"

section \<open>Vocabulary for the properties\<close>

text \<open>
  The intermediate values of the pipeline by name: a chunk with its score, the scored
  corpus in ranked order, and a ranked chunk as the response shows it.
\<close>

definition score :: "similarity_fn \<Rightarrow> real list \<Rightarrow> SyllabusChunk \<Rightarrow> ScoredChunk" where
  "score sim qe chunk = SyllabusChunk.extend chunk \<lparr>similarity = sim qe (embedding chunk)\<rparr>"

definition ranked :: "similarity_fn \<Rightarrow> real list \<Rightarrow> SyllabusChunk list \<Rightarrow> ScoredChunk list" where
  "ranked sim qe chunks =
     js_sort (\<lambda>a b. js_sub (similarity b) (similarity a)) (map (score sim qe) chunks)"

definition strip_embedding :: "ScoredChunk \<Rightarrow> TopChunk" where
  "strip_embedding c =
     \<lparr>top_chunk_id = chunk_id c, top_text = text c, top_similarity = similarity c\<rparr>"

text \<open>
  A comparator is consistent on a set when, there, it is negative exactly where a key into a
  linear order is smaller.
\<close>

definition consistent :: "('a \<Rightarrow> 'a \<Rightarrow> jsnum) \<Rightarrow> ('a \<Rightarrow> 'k::linorder) \<Rightarrow> 'a set \<Rightarrow> bool" where
  "consistent cmp f S = (\<forall>a\<in>S. \<forall>b\<in>S. negative (cmp a b) = (f a < f b))"

text \<open>A key that is smaller for the greater score.\<close>

definition desc_key :: "jsnum \<Rightarrow> nat \<times> real" where
  "desc_key x =
     (case x of PosInf \<Rightarrow> (0, 0) | Fin r \<Rightarrow> (1, - r) | NegInf \<Rightarrow> (2, 0) | NaN \<Rightarrow> (3, 0))"

text \<open>
  A failed retrieval call, as the chat handler can meet it: \<^verbatim>\<open>fetch\<close> rejects, the status is
  not in the 200 range, \<^verbatim>\<open>json()\<close> rejects, or reading \<^verbatim>\<open>ragData.context\<close> throws.
\<close>

fun retrieval_failed :: "fetch_outcome \<Rightarrow> bool" where
  "retrieval_failed (FetchRejects _) = True"
| "retrieval_failed (FetchResolves r) =
     (\<not> ok r \<or> (case res_json r of None \<Rightarrow> True | Some d \<Rightarrow> get_prop d ''context'' = None))"

text \<open>The result record of a run that gets as far as the ranking.\<close>

definition expected_result ::
  "similarity_fn \<Rightarrow> real list \<Rightarrow> SyllabusChunk list \<Rightarrow> string \<Rightarrow> int option \<Rightarrow> RetrievalResult" where
  "expected_result sim qe chunks s k =
     \<lparr>topChunks =
        map strip_embedding
          (js_slice (ranked sim qe chunks) 0 (case k of None \<Rightarrow> 4 | Some n \<Rightarrow> n)),
      context =
        js_join
          (map text (js_slice (ranked sim qe chunks) 0 (case k of None \<Rightarrow> 4 | Some n \<Rightarrow> n)))
          [CHR 0x0A, CHR ''-'', CHR ''-'', CHR ''-'', CHR 0x0A],
      question = s\<rparr>"

text \<open>A corpus of four chunks, two of them with the same embedding, and its environments.\<close>

definition demo_chunks :: "SyllabusChunk list" where
  "demo_chunks =
     [\<lparr>chunk_id = 0, text = ''grading'', embedding = [0, 1]\<rparr>,
      \<lparr>chunk_id = 1, text = ''exams'', embedding = [1, 0]\<rparr>,
      \<lparr>chunk_id = 2, text = ''labs'', embedding = [0, 1]\<rparr>,
      \<lparr>chunk_id = 3, text = ''policies'', embedding = [-1, 0]\<rparr>]"

definition demo_service :: "string \<Rightarrow> string + real list" where
  "demo_service txt = Inr [1, 0]"

definition failing_service :: "string \<Rightarrow> string + real list" where
  "failing_service txt = Inl ''429 You exceeded your current quota''"

definition demo_env :: env where
  "demo_env =
     \<lparr>OPENAI_API_KEY = Some ''sk-demo'', corpus_file = Inr (Chunks demo_chunks),
      embeddings_create = demo_service\<rparr>"

definition env_unset_key :: env where
  "env_unset_key =
     \<lparr>OPENAI_API_KEY = None, corpus_file = Inr (Chunks demo_chunks),
      embeddings_create = demo_service\<rparr>"

definition env_empty_key :: env where
  "env_empty_key =
     \<lparr>OPENAI_API_KEY = Some [], corpus_file = Inr (Chunks demo_chunks),
      embeddings_create = demo_service\<rparr>"

definition env_remote_failure :: env where
  "env_remote_failure =
     \<lparr>OPENAI_API_KEY = Some ''sk-demo'', corpus_file = Inr (Chunks demo_chunks),
      embeddings_create = failing_service\<rparr>"

definition env_without_corpus :: env where
  "env_without_corpus =
     \<lparr>OPENAI_API_KEY = Some ''sk-demo'',
      corpus_file = Inl ''ENOENT: no such file or directory'',
      embeddings_create = demo_service\<rparr>"

text \<open>A corpus with a chunk whose embedding is the zero vector.\<close>

definition zero_chunks :: "SyllabusChunk list" where
  "zero_chunks =
     [\<lparr>chunk_id = 0, text = ''policies'', embedding = [-1, 0]\<rparr>,
      \<lparr>chunk_id = 1, text = ''blank'', embedding = [0, 0]\<rparr>,
      \<lparr>chunk_id = 2, text = ''exams'', embedding = [1, 0]\<rparr>]"

definition env_zero_embedding :: env where
  "env_zero_embedding =
     \<lparr>OPENAI_API_KEY = Some ''sk-demo'', corpus_file = Inr (Chunks zero_chunks),
      embeddings_create = demo_service\<rparr>"

text \<open>
  A corpus of eight chunks with the scores 1, 1, 1, -1, NaN, 0, -1, 0 for the query [1, 0]:
  chunks 5 and 7 tie.
\<close>

definition tie_chunks :: "SyllabusChunk list" where
  "tie_chunks =
     [\<lparr>chunk_id = 0, text = ''c0'', embedding = [1, 0]\<rparr>,
      \<lparr>chunk_id = 1, text = ''c1'', embedding = [1, 0]\<rparr>,
      \<lparr>chunk_id = 2, text = ''c2'', embedding = [1, 0]\<rparr>,
      \<lparr>chunk_id = 3, text = ''c3'', embedding = [-1, 0]\<rparr>,
      \<lparr>chunk_id = 4, text = ''c4'', embedding = [0, 0]\<rparr>,
      \<lparr>chunk_id = 5, text = ''c5'', embedding = [0, 1]\<rparr>,
      \<lparr>chunk_id = 6, text = ''c6'', embedding = [-1, 0]\<rparr>,
      \<lparr>chunk_id = 7, text = ''c7'', embedding = [0, 1]\<rparr>]"

definition env_tie :: env where
  "env_tie =
     \<lparr>OPENAI_API_KEY = Some ''sk-demo'', corpus_file = Inr (Chunks tie_chunks),
      embeddings_create = demo_service\<rparr>"

text \<open>A user message, and a retrieval call that is refused and one that is answered with 500.\<close>

definition demo_parts :: "message_part list" where
  "demo_parts = [\<lparr>part_type = ''text'', part_text = ''when is the exam''\<rparr>]"

definition fetch_refused :: "string \<Rightarrow> fetch_outcome" where
  "fetch_refused payload = FetchRejects ''fetch failed''"

definition fetch_status_500 :: "string \<Rightarrow> fetch_outcome" where
  "fetch_status_500 payload =
     FetchResolves \<lparr>res_status = 500,
       res_json = Some (JObj [(''error'', JStr ''Embedding API not implemented'')]),
       res_text = Some ''{error: Embedding API not implemented}''\<rparr>"

definition no_fmt :: "jsval \<Rightarrow> string" where
  "no_fmt v = []"

section \<open>Properties of the built-ins\<close>

lemma desc_key_inj: "desc_key x = desc_key y \<longleftrightarrow> x = y"
  by (cases x; cases y) (simp_all add: desc_key_def)

lemma negative_sub: "x \<noteq> NaN \<Longrightarrow> y \<noteq> NaN \<Longrightarrow> negative (js_sub y x) = (desc_key x < desc_key y)"
  by (cases x; cases y) (simp_all add: desc_key_def)

lemma js_ge_key: "x \<noteq> NaN \<Longrightarrow> y \<noteq> NaN \<Longrightarrow> js_ge x y = (desc_key x \<le> desc_key y)"
  by (cases x; cases y) (auto simp: desc_key_def)

lemma mset_binary_insertion: "mset (binary_insertion cmp work rest) = mset work + mset rest"
proof (induction rest arbitrary: work)
  case Nil
  show ?case by simp
next
  case (Cons pivot rest)
  have "mset (take n work @ pivot # drop n work) = mset work + {#pivot#}" for n
  proof -
    have "mset (take n work) + mset (drop n work) = mset work"
      by (simp add: mset_append [symmetric] del: mset_append)
    then show ?thesis by (simp add: ac_simps)
  qed
  with Cons show ?case by (simp add: Let_def ac_simps)
qed

lemma list_cases3:
  obtains (short) "length xs \<le> 1" | (long) low high rest where "xs = low # high # rest"
  by (cases xs rule: remdups_adj.cases) auto

lemma js_sort_short: "length xs \<le> 1 \<Longrightarrow> js_sort cmp xs = xs"
  by (cases xs rule: remdups_adj.cases) auto

lemma mset_js_sort: "mset (js_sort cmp xs) = mset xs"
proof (cases xs rule: list_cases3)
  case (long low high rest)
  have "mset (take n rest) + mset (drop n rest) = mset rest" for n
    by (simp add: mset_append [symmetric] del: mset_append)
  then show ?thesis using long
    by (simp add: Let_def mset_binary_insertion ac_simps)
next
  case short
  then show ?thesis by (simp add: js_sort_short)
qed

lemma consistentD: "consistent cmp f S \<Longrightarrow> a \<in> S \<Longrightarrow> b \<in> S \<Longrightarrow> negative (cmp a b) = (f a < f b)"
  by (simp add: consistent_def)

lemma consistent_subset: "consistent cmp f S \<Longrightarrow> T \<subseteq> S \<Longrightarrow> consistent cmp f T"
  by (auto simp: consistent_def)

lemma ascending_run:
  assumes "consistent cmp f (insert previous (set xs))"
  shows "sorted (map f (previous # take (run_length cmp False previous xs) xs))"
  using assms
proof (induction xs arbitrary: previous)
  case Nil
  show ?case by simp
next
  case (Cons current rest)
  have c: "consistent cmp f (insert current (set rest))"
    by (rule consistent_subset [OF Cons.prems]) auto
  have n: "negative (cmp current previous) = (f current < f previous)"
    by (rule consistentD [OF Cons.prems]) auto
  show ?case
  proof (cases "negative (cmp current previous)")
    case True
    then show ?thesis by simp
  next
    case False
    with n have "f previous \<le> f current" by simp
    with False Cons.IH [OF c] show ?thesis by fastforce
  qed
qed

lemma descending_run:
  assumes "consistent cmp f (insert previous (set xs))"
  shows "sorted_wrt (>) (map f (previous # take (run_length cmp True previous xs) xs))"
  using assms
proof (induction xs arbitrary: previous)
  case Nil
  show ?case by simp
next
  case (Cons current rest)
  have c: "consistent cmp f (insert current (set rest))"
    by (rule consistent_subset [OF Cons.prems]) auto
  have n: "negative (cmp current previous) = (f current < f previous)"
    by (rule consistentD [OF Cons.prems]) auto
  have t: "transp ((>) :: 'b \<Rightarrow> 'b \<Rightarrow> bool)" by (auto intro: transpI)
  show ?case
  proof (cases "negative (cmp current previous)")
    case True
    with n Cons.IH [OF c] show ?thesis by fastforce
  next
    case False
    then show ?thesis by simp
  qed
qed

lemma filter_rev_distinct:
  assumes "distinct (map f xs)"
  shows "filter (\<lambda>x. f k = f x) (rev xs) = filter (\<lambda>x. f k = f x) xs"
proof -
  have "length (filter (\<lambda>x. f k = f x) xs) \<le> 1"
    using assms by (induction xs) (auto simp: filter_empty_conv)
  then have "rev (filter (\<lambda>x. f k = f x) xs) = filter (\<lambda>x. f k = f x) xs"
    by (cases "filter (\<lambda>x. f k = f x) xs" rule: remdups_adj.cases) auto
  then show ?thesis by (simp add: rev_filter)
qed

lemma binary_search_bounds:
  assumes "sorted (map f work)" and "consistent cmp f (insert pivot (set work))"
    and "left \<le> right" and "right \<le> length work"
    and "\<forall>i<left. f (work ! i) \<le> f pivot"
    and "\<forall>i. right \<le> i \<and> i < length work \<longrightarrow> f pivot < f (work ! i)"
  shows "binary_search cmp pivot work left right \<le> length work \<and>
         (\<forall>i<binary_search cmp pivot work left right. f (work ! i) \<le> f pivot) \<and>
         (\<forall>i. binary_search cmp pivot work left right \<le> i \<and> i < length work \<longrightarrow>
              f pivot < f (work ! i))"
  using assms
proof (induction cmp pivot work left right rule: binary_search.induct)
  case (1 cmp pivot work left right)
  show ?case
  proof (cases "left < right")
    case False
    then have "binary_search cmp pivot work left right = left"
      by (simp add: binary_search.simps [of cmp pivot work left right])
    moreover from False "1.prems" have "left = right" by simp
    ultimately show ?thesis using "1.prems" by simp
  next
    case True
    define mid where "mid = left + (right - left) div 2"
    have mid: "left \<le> mid" "mid < right" using True by (auto simp: mid_def)
    with "1.prems" have len: "mid < length work" by simp
    have n: "negative (cmp pivot (work ! mid)) = (f pivot < f (work ! mid))"
      by (rule consistentD [OF "1.prems"(2)]) (use len in auto)
    have mono: "f (work ! i) \<le> f (work ! j)" if "i \<le> j" "j < length work" for i j
      using "1.prems"(1) that by (auto simp: sorted_iff_nth_mono)
    show ?thesis
    proof (cases "negative (cmp pivot (work ! mid))")
      case neg: True
      have up: "\<forall>i. mid \<le> i \<and> i < length work \<longrightarrow> f pivot < f (work ! i)"
      proof (intro allI impI)
        fix i assume "mid \<le> i \<and> i < length work"
        then have "f (work ! mid) \<le> f (work ! i)" using mono by blast
        with neg n show "f pivot < f (work ! i)" by simp
      qed
      have "binary_search cmp pivot work left right = binary_search cmp pivot work left mid"
        using True neg by (simp add: binary_search.simps [of cmp pivot work left right] mid_def Let_def)
      moreover have "binary_search cmp pivot work left mid \<le> length work \<and>
         (\<forall>i<binary_search cmp pivot work left mid. f (work ! i) \<le> f pivot) \<and>
         (\<forall>i. binary_search cmp pivot work left mid \<le> i \<and> i < length work \<longrightarrow>
              f pivot < f (work ! i))"
        using "1.IH"(1) [OF True mid_def neg "1.prems"(1,2) mid(1) _ "1.prems"(5) up] len
        by simp
      ultimately show ?thesis by simp
    next
      case pos: False
      have low: "\<forall>i<mid + 1. f (work ! i) \<le> f pivot"
      proof (intro allI impI)
        fix i assume "i < mid + 1"
        then have "f (work ! i) \<le> f (work ! mid)" using mono len by simp
        with pos n show "f (work ! i) \<le> f pivot" by simp
      qed
      have "binary_search cmp pivot work left right = binary_search cmp pivot work (mid + 1) right"
        using True pos by (simp add: binary_search.simps [of cmp pivot work left right] mid_def Let_def)
      moreover have "binary_search cmp pivot work (mid + 1) right \<le> length work \<and>
         (\<forall>i<binary_search cmp pivot work (mid + 1) right. f (work ! i) \<le> f pivot) \<and>
         (\<forall>i. binary_search cmp pivot work (mid + 1) right \<le> i \<and> i < length work \<longrightarrow>
              f pivot < f (work ! i))"
        using "1.IH"(2) [OF True mid_def pos "1.prems"(1,2) _ "1.prems"(4) low "1.prems"(6)] mid
        by simp
      ultimately show ?thesis by simp
    qed
  qed
qed

lemma binary_search_split:
  assumes "sorted (map f work)" and "consistent cmp f (insert pivot (set work))"
  defines "left \<equiv> binary_search cmp pivot work 0 (length work)"
  shows "(\<forall>x\<in>set (take left work). f x \<le> f pivot) \<and> (\<forall>x\<in>set (drop left work). f pivot < f x)"
proof -
  have e: "\<forall>i. length work \<le> i \<and> i < length work \<longrightarrow> f pivot < f (work ! i)" by auto
  from binary_search_bounds [OF assms(1,2) _ _ _ e, of 0]
  have b: "left \<le> length work" "\<forall>i<left. f (work ! i) \<le> f pivot"
    "\<forall>i. left \<le> i \<and> i < length work \<longrightarrow> f pivot < f (work ! i)"
    by (simp_all add: left_def)
  show ?thesis
  proof (intro conjI ballI)
    fix x assume "x \<in> set (take left work)"
    then obtain i where "i < length (take left work)" "x = take left work ! i"
      by (auto simp: in_set_conv_nth)
    with b show "f x \<le> f pivot" by simp
  next
    fix x assume "x \<in> set (drop left work)"
    then obtain i where "i < length (drop left work)" "x = drop left work ! i"
      by (auto simp: in_set_conv_nth)
    with b show "f pivot < f x" by simp
  qed
qed

lemma insert_pivot:
  assumes "sorted (map f work)" and "consistent cmp f (insert pivot (set work))"
  defines "left \<equiv> binary_search cmp pivot work 0 (length work)"
  shows "sorted (map f (take left work @ pivot # drop left work))"
    and "filter (\<lambda>x. f k = f x) (take left work @ pivot # drop left work)
         = filter (\<lambda>x. f k = f x) (work @ [pivot])"
proof -
  from binary_search_split [OF assms(1,2)]
  have s: "\<forall>x\<in>set (take left work). f x \<le> f pivot" "\<forall>x\<in>set (drop left work). f pivot < f x"
    by (simp_all add: left_def)
  have "sorted (map f (take left work))" "sorted (map f (drop left work))"
    using assms(1) by (simp_all add: take_map [symmetric] drop_map [symmetric] sorted_wrt_take sorted_wrt_drop)
  with s show "sorted (map f (take left work @ pivot # drop left work))"
    by (fastforce simp: sorted_append)
  have w: "filter (\<lambda>x. f k = f x) work
         = filter (\<lambda>x. f k = f x) (take left work) @ filter (\<lambda>x. f k = f x) (drop left work)"
    by (simp add: filter_append [symmetric] del: filter_append)
  show "filter (\<lambda>x. f k = f x) (take left work @ pivot # drop left work)
         = filter (\<lambda>x. f k = f x) (work @ [pivot])"
  proof (cases "f k = f pivot")
    case True
    with s(2) have "filter (\<lambda>x. f k = f x) (drop left work) = []"
      by (auto simp: filter_empty_conv)
    with True w show ?thesis by simp
  next
    case False
    with w show ?thesis by simp
  qed
qed

lemma binary_insertion_sorts:
  assumes "sorted (map f work)" and "consistent cmp f (set work \<union> set rest)"
  shows "sorted (map f (binary_insertion cmp work rest)) \<and>
         filter (\<lambda>x. f k = f x) (binary_insertion cmp work rest)
         = filter (\<lambda>x. f k = f x) (work @ rest)"
  using assms
proof (induction rest arbitrary: work)
  case Nil
  then show ?case by simp
next
  case (Cons pivot rest)
  define left where "left = binary_search cmp pivot work 0 (length work)"
  define work' where "work' = take left work @ pivot # drop left work"
  have c: "consistent cmp f (insert pivot (set work))"
    by (rule consistent_subset [OF Cons.prems(2)]) auto
  have s: "sorted (map f work')"
    unfolding work'_def left_def by (rule insert_pivot(1) [OF Cons.prems(1) c])
  have fl: "filter (\<lambda>x. f k = f x) work' = filter (\<lambda>x. f k = f x) (work @ [pivot])"
    unfolding work'_def left_def by (rule insert_pivot(2) [OF Cons.prems(1) c])
  have "set work' = insert pivot (set work)"
  proof -
    have "set (take left work) \<union> set (drop left work) = set work"
      by (simp add: set_append [symmetric] del: set_append)
    then show ?thesis by (auto simp: work'_def)
  qed
  then have c': "consistent cmp f (set work' \<union> set rest)"
    using Cons.prems(2) by (auto intro: consistent_subset)
  from Cons.IH [OF s c'] fl show ?case
    by (simp add: Let_def left_def [symmetric] work'_def [symmetric])
qed

lemma js_sort_sort_key:
  assumes "consistent cmp f (set xs)"
  shows "js_sort cmp xs = sort_key f xs"
proof (rule properties_for_sort_key [symmetric])
  show "mset (js_sort cmp xs) = mset xs" by (rule mset_js_sort)
next
  have main: "sorted (map f (js_sort cmp xs)) \<and>
      filter (\<lambda>x. f k = f x) (js_sort cmp xs) = filter (\<lambda>x. f k = f x) xs" for k
  proof (cases xs rule: list_cases3)
    case short
    then show ?thesis by (simp add: js_sort_short sorted01)
  next
    case (long low high rest)
    define descending where "descending = negative (cmp high low)"
    define n where "n = run_length cmp descending high rest"
    define run where "run = low # high # take n rest"
    define work where "work = (if descending then rev run else run)"
    have c1: "consistent cmp f (insert high (set rest))"
      by (rule consistent_subset [OF assms]) (auto simp: long)
    have hl: "negative (cmp high low) = (f high < f low)"
      by (rule consistentD [OF assms]) (auto simp: long)
    have w: "sorted (map f work) \<and>
             filter (\<lambda>x. f k = f x) work = filter (\<lambda>x. f k = f x) run"
    proof (cases descending)
      case True
      from descending_run [OF c1] True
      have "sorted_wrt (>) (map f (high # take n rest))" by (simp add: n_def)
      with True hl have "sorted_wrt (>) (map f run)"
        by (simp add: run_def descending_def sorted_wrt2 [OF transpI [of "(>)"]] del: sorted_wrt.simps(2))
      then have "sorted_wrt (<) (map f (rev run))"
        by (simp add: rev_map [symmetric] sorted_wrt_rev)
      then have "sorted (map f (rev run))" "distinct (map f (rev run))"
        by (simp_all add: strict_sorted_iff)
      moreover from this have "distinct (map f run)" by (simp add: rev_map [symmetric] del: rev.simps)
      ultimately show ?thesis using True by (simp add: work_def filter_rev_distinct)
    next
      case False
      from ascending_run [OF c1] False
      have "sorted (map f (high # take n rest))" by (simp add: n_def)
      with False hl show ?thesis by (fastforce simp: work_def run_def descending_def)
    qed
    have set_eq: "set work \<union> set (drop n rest) = set xs"
    proof -
      have "set (take n rest) \<union> set (drop n rest) = set rest"
        by (simp add: set_append [symmetric] del: set_append)
      then show ?thesis by (auto simp: work_def run_def long)
    qed
    have c2: "consistent cmp f (set work \<union> set (drop n rest))"
      using assms by (simp add: set_eq)
    have js: "js_sort cmp xs = binary_insertion cmp work (drop n rest)"
      by (simp add: long Let_def work_def run_def n_def descending_def)
    have "xs = run @ drop n rest" by (simp add: long run_def)
    then have "filter (\<lambda>x. f k = f x) xs
        = filter (\<lambda>x. f k = f x) run @ filter (\<lambda>x. f k = f x) (drop n rest)"
      by (metis filter_append)
    with binary_insertion_sorts [OF conjunct1 [OF w] c2, of k] w show ?thesis
      by (simp add: js)
  qed
  from main show "sorted (map f (js_sort cmp xs))" by blast
  from main show "filter (\<lambda>x. f k = f x) (js_sort cmp xs) = filter (\<lambda>x. f k = f x) xs"
    if "k \<in> set (js_sort cmp xs)" for k by blast
qed

lemma js_slice_from_0:
  "js_slice xs 0 k = take (if k < 0 then length xs - nat (- k) else nat k) xs"
proof -
  have "k < 0 \<Longrightarrow> nat (int (length xs) + k) = length xs - nat (- k)" by arith
  then show ?thesis by (auto simp: js_slice_def Let_def max_def min_def)
qed

lemma js_join_concat:
  "js_join xs sep = (case xs of [] \<Rightarrow> [] | x # ys \<Rightarrow> x @ concat (map (\<lambda>y. sep @ y) ys))"
  by (induction xs sep rule: js_join.induct) simp_all

lemma binary_search_step:
  "left < right \<Longrightarrow>
   binary_search cmp pivot work left right =
     (if negative (cmp pivot (work ! (left + (right - left) div 2)))
      then binary_search cmp pivot work left (left + (right - left) div 2)
      else binary_search cmp pivot work (left + (right - left) div 2 + 1) right)"
  by (simp add: binary_search.simps [of cmp pivot work left right] Let_def)

lemma binary_search_done: "\<not> left < right \<Longrightarrow> binary_search cmp pivot work left right = left"
  by (simp add: binary_search.simps [of cmp pivot work left right])

section \<open>The ranking\<close>

lemma pipeline_vocab:
  "js_sort (\<lambda>a b. js_sub (similarity b) (similarity a))
     (map (\<lambda>chunk. SyllabusChunk.extend chunk \<lparr>similarity = sim qe (embedding chunk)\<rparr>) chunks)
   = ranked sim qe chunks"
  by (simp add: ranked_def score_def [abs_def])

lemma mset_ranked: "mset (ranked sim qe chunks) = mset (map (score sim qe) chunks)"
  by (simp add: ranked_def mset_js_sort)

lemma length_ranked: "length (ranked sim qe chunks) = length chunks"
  using mset_eq_length [OF mset_ranked] by simp

lemma set_ranked: "set (ranked sim qe chunks) = score sim qe ` set chunks"
  using mset_eq_setD [OF mset_ranked] by simp

lemma similarity_score: "similarity (score sim qe c) = sim qe (embedding c)"
  by (simp add: score_def SyllabusChunk.defs)

lemma ranked_sort_key:
  assumes "\<forall>c\<in>set chunks. sim qe (embedding c) \<noteq> NaN"
  shows "ranked sim qe chunks
         = sort_key (\<lambda>c. desc_key (similarity c)) (map (score sim qe) chunks)"
  unfolding ranked_def
proof (rule js_sort_sort_key)
  show "consistent (\<lambda>a b. js_sub (similarity b) (similarity a)) (\<lambda>c. desc_key (similarity c))
          (set (map (score sim qe) chunks))"
    using assms by (auto simp: consistent_def similarity_score negative_sub)
qed

lemma ranked_descending:
  assumes "\<forall>c\<in>set chunks. sim qe (embedding c) \<noteq> NaN"
  shows "sorted_wrt js_ge (map similarity (ranked sim qe chunks))"
proof -
  have "sorted (map (\<lambda>c. desc_key (similarity c)) (ranked sim qe chunks))"
    unfolding ranked_sort_key [where sim = sim and qe = qe, OF assms] by (rule sorted_sort_key)
  then have "sorted_wrt (\<lambda>a b. desc_key (similarity a) \<le> desc_key (similarity b))
               (ranked sim qe chunks)"
    by (simp add: sorted_wrt_map)
  then have "sorted_wrt (\<lambda>a b. js_ge (similarity a) (similarity b)) (ranked sim qe chunks)"
  proof (rule sorted_wrt_mono_rel [rotated])
    fix a b
    assume "a \<in> set (ranked sim qe chunks)" "b \<in> set (ranked sim qe chunks)"
      and le: "desc_key (similarity a) \<le> desc_key (similarity b)"
    with assms have "similarity a \<noteq> NaN" "similarity b \<noteq> NaN"
      by (auto simp: set_ranked similarity_score)
    with le show "js_ge (similarity a) (similarity b)" by (simp add: js_ge_key)
  qed
  then show ?thesis by (simp add: sorted_wrt_map)
qed

lemma ranked_stable:
  assumes "\<forall>c\<in>set chunks. sim qe (embedding c) \<noteq> NaN"
  shows "filter (\<lambda>c. similarity c = v) (ranked sim qe chunks)
         = filter (\<lambda>c. similarity c = v) (map (score sim qe) chunks)"
proof -
  have "filter (\<lambda>c. desc_key (similarity c) = desc_key v)
          (sort_key (\<lambda>c. desc_key (similarity c)) (map (score sim qe) chunks))
        = filter (\<lambda>c. desc_key (similarity c) = desc_key v) (map (score sim qe) chunks)"
    by (rule sort_key_stable)
  then show ?thesis
    by (simp add: ranked_sort_key [where sim = sim and qe = qe, OF assms] desc_key_inj)
qed

lemma top_similarity_strip: "map top_similarity (map strip_embedding cs) = map similarity cs"
  by (simp add: strip_embedding_def o_def)

lemma top_text_strip: "map top_text (map strip_embedding cs) = map text cs"
  by (simp add: strip_embedding_def o_def)

section \<open>The runs of the two implementations\<close>

lemma question_cases:
  obtains (valid) s where "q = JStr s" "s \<noteq> []"
  | (invalid) "\<not> truthy q \<or> typeof q \<noteq> ''string''"
  by (cases q) auto

lemma POST_invalid:
  assumes "\<not> truthy q \<or> typeof q \<noteq> ''string''"
  shows "POST sim e (Inr \<lparr>req_question = q, req_topK = k\<rparr>) =
           (\<lparr>status = 400, body = ErrorBody ''Missing or invalid question''\<rparr>, [])"
  using assms by (simp add: POST_def Let_def)

lemma getRAGContext_invalid:
  assumes "\<not> truthy q \<or> typeof q \<noteq> ''string''"
  shows "getRAGContext sim e q k =
           (Inl ''RAG processing failed: Missing or invalid question'', [])"
  using assms by (simp add: getRAGContext_def getRAGContext_try_def Let_def)

lemma POST_valid:
  assumes "s \<noteq> []"
  shows "POST sim e (Inr \<lparr>req_question = JStr s, req_topK = k\<rparr>) =
     (case corpus_file e of
        Inl err \<Rightarrow> (\<lparr>status = 500, body = ErrorBody err\<rparr>, [ReadFile])
      | Inr parsed \<Rightarrow>
          if key_missing e
          then (\<lparr>status = 500, body = ErrorBody ''Embedding API not implemented''\<rparr>, [ReadFile])
          else (case embeddings_create e s of
                  Inl _ \<Rightarrow>
                    (\<lparr>status = 500, body = ErrorBody ''Embedding API not implemented''\<rparr>,
                     [ReadFile, EmbeddingsCreate s])
                | Inr qe \<Rightarrow>
                    (case parsed of
                       NotArray err \<Rightarrow>
                         (\<lparr>status = 500, body = ErrorBody err\<rparr>, [ReadFile, EmbeddingsCreate s])
                     | Chunks chunks \<Rightarrow>
                         (\<lparr>status = 200, body = ResultBody (expected_result sim qe chunks s k)\<rparr>,
                          [ReadFile, EmbeddingsCreate s]))))"
  using assms
  by (simp add: POST_def getEmbedding_def Let_def pipeline_vocab strip_embedding_def
      expected_result_def split: sum.splits parsed_corpus.splits)

lemma getRAGContext_valid:
  assumes "s \<noteq> []"
  shows "getRAGContext sim e (JStr s) k =
     (case corpus_file e of
        Inl err \<Rightarrow> (Inl (''RAG processing failed: '' @ err), [ReadFile])
      | Inr parsed \<Rightarrow>
          if key_missing e
          then (Inl ''RAG processing failed: Failed to get embedding for question'', [ReadFile])
          else (case embeddings_create e s of
                  Inl _ \<Rightarrow>
                    (Inl ''RAG processing failed: Failed to get embedding for question'',
                     [ReadFile, EmbeddingsCreate s])
                | Inr qe \<Rightarrow>
                    (case parsed of
                       NotArray err \<Rightarrow>
                         (Inl (''RAG processing failed: '' @ err), [ReadFile, EmbeddingsCreate s])
                     | Chunks chunks \<Rightarrow>
                         (Inr (expected_result sim qe chunks s k),
                          [ReadFile, EmbeddingsCreate s]))))"
  using assms
  by (simp add: getRAGContext_def getRAGContext_try_def getEmbedding_def Let_def pipeline_vocab
      strip_embedding_def expected_result_def split: sum.splits parsed_corpus.splits)

lemma POST_success_D:
  assumes "POST sim e (Inr \<lparr>req_question = q, req_topK = k\<rparr>) =
             (\<lparr>status = 200, body = ResultBody r\<rparr>, evs)"
  shows "\<exists>s chunks qe. q = JStr s \<and> s \<noteq> [] \<and> corpus_file e = Inr (Chunks chunks) \<and>
           \<not> key_missing e \<and> embeddings_create e s = Inr qe \<and>
           r = expected_result sim qe chunks s k \<and> evs = [ReadFile, EmbeddingsCreate s]"
proof (cases q rule: question_cases)
  case (valid s)
  with assms show ?thesis
    by (auto simp: POST_valid split: sum.splits if_splits parsed_corpus.splits)
next
  case invalid
  with assms show ?thesis by (simp add: POST_invalid)
qed

lemma getRAGContext_success_D:
  assumes "getRAGContext sim e q k = (Inr r, evs)"
  shows "\<exists>s chunks qe. q = JStr s \<and> s \<noteq> [] \<and> corpus_file e = Inr (Chunks chunks) \<and>
           \<not> key_missing e \<and> embeddings_create e s = Inr qe \<and>
           r = expected_result sim qe chunks s k \<and> evs = [ReadFile, EmbeddingsCreate s]"
proof (cases q rule: question_cases)
  case (valid s)
  with assms show ?thesis
    by (auto simp: getRAGContext_valid split: sum.splits if_splits parsed_corpus.splits)
next
  case invalid
  with assms show ?thesis by (simp add: getRAGContext_invalid)
qed

lemma success_D:
  assumes "POST sim e (Inr \<lparr>req_question = q, req_topK = k\<rparr>) =
             (\<lparr>status = 200, body = ResultBody r\<rparr>, evs)
           \<or> getRAGContext sim e q k = (Inr r, evs)"
  shows "\<exists>s chunks qe. q = JStr s \<and> s \<noteq> [] \<and> corpus_file e = Inr (Chunks chunks) \<and>
           \<not> key_missing e \<and> embeddings_create e s = Inr qe \<and>
           r = expected_result sim qe chunks s k \<and> evs = [ReadFile, EmbeddingsCreate s]"
  using assms POST_success_D getRAGContext_success_D by blast

lemma run_succeeds:
  assumes "s \<noteq> []" and "corpus_file e = Inr (Chunks chunks)" and "\<not> key_missing e"
    and "embeddings_create e s = Inr qe"
  shows "POST sim e (Inr \<lparr>req_question = JStr s, req_topK = k\<rparr>) =
           (\<lparr>status = 200, body = ResultBody (expected_result sim qe chunks s k)\<rparr>,
            [ReadFile, EmbeddingsCreate s])"
    and "getRAGContext sim e (JStr s) k =
           (Inr (expected_result sim qe chunks s k), [ReadFile, EmbeddingsCreate s])"
  using assms by (simp_all add: POST_valid getRAGContext_valid)

lemma POST_delegating_invalid:
  assumes "\<not> truthy q \<or> typeof q \<noteq> ''string''"
  shows "POST_delegating sim e (Inr \<lparr>req_question = q, req_topK = k\<rparr>) =
           (\<lparr>status = 500, body = ErrorBody ''RAG processing failed: Missing or invalid question''\<rparr>, [])"
  using assms by (simp add: POST_delegating_def getRAGContext_invalid Let_def)

lemma POST_delegating_valid:
  "POST_delegating sim e (Inr \<lparr>req_question = q, req_topK = k\<rparr>) =
     (case getRAGContext sim e q (Some (case k of None \<Rightarrow> 4 | Some n \<Rightarrow> n)) of
        (Inl err, evs) \<Rightarrow> (\<lparr>status = 500, body = ErrorBody err\<rparr>, evs)
      | (Inr result, evs) \<Rightarrow> (\<lparr>status = 200, body = ResultBody result\<rparr>, evs))"
  by (simp add: POST_delegating_def Let_def)

section \<open>Worked runs\<close>

lemma cosine_values:
  "cosineSimilarity [1, 0] [1, 0] = Fin 1"
  "cosineSimilarity [1, 0] [0, 1] = Fin 0"
  "cosineSimilarity [1, 0] [-1, 0] = Fin (- 1)"
  "cosineSimilarity [1, 0] [0, 0] = NaN"
  by (simp_all add: cosineSimilarity_def dot_def magnitude_def js_div_def)

lemma demo_ranked:
  "ranked cosineSimilarity [1, 0] demo_chunks =
     [\<lparr>chunk_id = 1, text = ''exams'', embedding = [1, 0], similarity = Fin 1\<rparr>,
      \<lparr>chunk_id = 0, text = ''grading'', embedding = [0, 1], similarity = Fin 0\<rparr>,
      \<lparr>chunk_id = 2, text = ''labs'', embedding = [0, 1], similarity = Fin 0\<rparr>,
      \<lparr>chunk_id = 3, text = ''policies'', embedding = [-1, 0], similarity = Fin (- 1)\<rparr>]"
  by (simp add: demo_chunks_def cosine_values ranked_def score_def
      SyllabusChunk.defs ScoredChunk.defs binary_search_step binary_search_done)

lemma zero_ranked:
  "ranked cosineSimilarity [1, 0] zero_chunks =
     [\<lparr>chunk_id = 0, text = ''policies'', embedding = [-1, 0], similarity = Fin (- 1)\<rparr>,
      \<lparr>chunk_id = 1, text = ''blank'', embedding = [0, 0], similarity = NaN\<rparr>,
      \<lparr>chunk_id = 2, text = ''exams'', embedding = [1, 0], similarity = Fin 1\<rparr>]"
  by (simp add: zero_chunks_def cosine_values ranked_def score_def
      SyllabusChunk.defs ScoredChunk.defs binary_search_step binary_search_done)

lemma tie_ranked:
  "ranked cosineSimilarity [1, 0] tie_chunks =
     [\<lparr>chunk_id = 0, text = ''c0'', embedding = [1, 0], similarity = Fin 1\<rparr>,
      \<lparr>chunk_id = 1, text = ''c1'', embedding = [1, 0], similarity = Fin 1\<rparr>,
      \<lparr>chunk_id = 2, text = ''c2'', embedding = [1, 0], similarity = Fin 1\<rparr>,
      \<lparr>chunk_id = 7, text = ''c7'', embedding = [0, 1], similarity = Fin 0\<rparr>,
      \<lparr>chunk_id = 3, text = ''c3'', embedding = [-1, 0], similarity = Fin (- 1)\<rparr>,
      \<lparr>chunk_id = 4, text = ''c4'', embedding = [0, 0], similarity = NaN\<rparr>,
      \<lparr>chunk_id = 5, text = ''c5'', embedding = [0, 1], similarity = Fin 0\<rparr>,
      \<lparr>chunk_id = 6, text = ''c6'', embedding = [-1, 0], similarity = Fin (- 1)\<rparr>]"
  by (simp add: tie_chunks_def cosine_values ranked_def score_def
      SyllabusChunk.defs ScoredChunk.defs binary_search_step binary_search_done)

lemma env_simps:
  "corpus_file demo_env = Inr (Chunks demo_chunks)"
  "key_missing demo_env = False"
  "module_loads demo_env"
  "embeddings_create demo_env s = Inr [1, 0]"
  "module_loads env_unset_key = False"
  "corpus_file env_empty_key = Inr (Chunks demo_chunks)"
  "key_missing env_empty_key = True"
  "module_loads env_empty_key"
  "corpus_file env_remote_failure = Inr (Chunks demo_chunks)"
  "key_missing env_remote_failure = False"
  "module_loads env_remote_failure"
  "embeddings_create env_remote_failure s = Inl ''429 You exceeded your current quota''"
  "corpus_file env_without_corpus = Inl ''ENOENT: no such file or directory''"
  "module_loads env_without_corpus"
  "corpus_file env_zero_embedding = Inr (Chunks zero_chunks)"
  "key_missing env_zero_embedding = False"
  "embeddings_create env_zero_embedding s = Inr [1, 0]"
  "corpus_file env_tie = Inr (Chunks tie_chunks)"
  "key_missing env_tie = False"
  "embeddings_create env_tie s = Inr [1, 0]"
  by (simp_all add: demo_env_def env_unset_key_def env_empty_key_def env_remote_failure_def
      env_without_corpus_def env_zero_embedding_def env_tie_def demo_service_def
      failing_service_def key_missing_def module_loads_def)

lemma demo_result_3:
  "expected_result cosineSimilarity [1, 0] demo_chunks ''exam date'' (Some 3) =
     \<lparr>topChunks =
        [\<lparr>top_chunk_id = 1, top_text = ''exams'', top_similarity = Fin 1\<rparr>,
         \<lparr>top_chunk_id = 0, top_text = ''grading'', top_similarity = Fin 0\<rparr>,
         \<lparr>top_chunk_id = 2, top_text = ''labs'', top_similarity = Fin 0\<rparr>],
      context =
        ''exams'' @ [CHR 0x0A, CHR ''-'', CHR ''-'', CHR ''-'', CHR 0x0A] @ ''grading'' @
        [CHR 0x0A, CHR ''-'', CHR ''-'', CHR ''-'', CHR 0x0A] @ ''labs'',
      question = ''exam date''\<rparr>"
  by (simp add: expected_result_def demo_ranked js_slice_def strip_embedding_def)

lemma demo_result_1:
  "expected_result cosineSimilarity [1, 0] demo_chunks ''exam date'' (Some 1) =
     \<lparr>topChunks = [\<lparr>top_chunk_id = 1, top_text = ''exams'', top_similarity = Fin 1\<rparr>],
      context = ''exams'',
      question = ''exam date''\<rparr>"
  by (simp add: expected_result_def demo_ranked js_slice_def strip_embedding_def)

lemma demo_POST:
  "POST cosineSimilarity demo_env (Inr \<lparr>req_question = JStr ''exam date'', req_topK = Some 3\<rparr>) =
     (\<lparr>status = 200,
       body = ResultBody
         \<lparr>topChunks =
            [\<lparr>top_chunk_id = 1, top_text = ''exams'', top_similarity = Fin 1\<rparr>,
             \<lparr>top_chunk_id = 0, top_text = ''grading'', top_similarity = Fin 0\<rparr>,
             \<lparr>top_chunk_id = 2, top_text = ''labs'', top_similarity = Fin 0\<rparr>],
          context =
            ''exams'' @ [CHR 0x0A, CHR ''-'', CHR ''-'', CHR ''-'', CHR 0x0A] @ ''grading'' @
            [CHR 0x0A, CHR ''-'', CHR ''-'', CHR ''-'', CHR 0x0A] @ ''labs'',
          question = ''exam date''\<rparr>\<rparr>,
      [ReadFile, EmbeddingsCreate ''exam date''])"
  by (simp only: run_succeeds(1) [of "''exam date''" demo_env demo_chunks "[1, 0]"] env_simps
      demo_result_3 list.distinct not_False_eq_True)

lemma demo_POST_top1:
  "POST cosineSimilarity demo_env (Inr \<lparr>req_question = JStr ''exam date'', req_topK = Some 1\<rparr>) =
     (\<lparr>status = 200,
       body = ResultBody
         \<lparr>topChunks = [\<lparr>top_chunk_id = 1, top_text = ''exams'', top_similarity = Fin 1\<rparr>],
          context = ''exams'',
          question = ''exam date''\<rparr>\<rparr>,
      [ReadFile, EmbeddingsCreate ''exam date''])"
  by (simp only: run_succeeds(1) [of "''exam date''" demo_env demo_chunks "[1, 0]"] env_simps
      demo_result_1 list.distinct not_False_eq_True)

section \<open>The retrieval result\<close>

text \<open>
  C1, as the spec has it, fails: with a chunk whose embedding is the zero vector, the run
  succeeds and its topChunks are not sorted by similarity.
\<close>

theorem zero_embedding_leaves_unsorted:
  "getRAGContext cosineSimilarity env_zero_embedding (JStr ''exam date'') (Some 3) =
     (Inr \<lparr>topChunks =
             [\<lparr>top_chunk_id = 0, top_text = ''policies'', top_similarity = Fin (- 1)\<rparr>,
              \<lparr>top_chunk_id = 1, top_text = ''blank'', top_similarity = NaN\<rparr>,
              \<lparr>top_chunk_id = 2, top_text = ''exams'', top_similarity = Fin 1\<rparr>],
           context =
             ''policies'' @ [CHR 0x0A, CHR ''-'', CHR ''-'', CHR ''-'', CHR 0x0A] @ ''blank'' @
             [CHR 0x0A, CHR ''-'', CHR ''-'', CHR ''-'', CHR 0x0A] @ ''exams'',
           question = ''exam date''\<rparr>,
      [ReadFile, EmbeddingsCreate ''exam date'']) \<and>
   \<not> sorted_wrt js_ge
       (map top_similarity
          [\<lparr>top_chunk_id = 0, top_text = ''policies'', top_similarity = Fin (- 1)\<rparr>,
           \<lparr>top_chunk_id = 1, top_text = ''blank'', top_similarity = NaN\<rparr>,
           \<lparr>top_chunk_id = 2, top_text = ''exams'', top_similarity = Fin 1\<rparr>]) \<and>
   \<not> js_ge (Fin (- 1)) (Fin 1)"
  by (simp add: getRAGContext_valid env_simps expected_result_def zero_ranked js_slice_def
      strip_embedding_def)

text \<open>
  C1, amended. For a corpus of N chunks and a caller-supplied positive integer topK = K, a
  retrieval with a valid question, a corpus that loads and an embedding that is delivered
  succeeds, by the route handler and by getRAGContext, with topChunks of length min(K, N);
  topChunks is sorted by similarity, non-increasing, when no chunk's similarity to the
  query is NaN.
\<close>

theorem topChunks_length_sorted:
  assumes "0 < K" and "s \<noteq> []" and "corpus_file e = Inr (Chunks chunks)"
    and "\<not> key_missing e" and "embeddings_create e s = Inr qe"
  shows "\<exists>r. POST sim e (Inr \<lparr>req_question = JStr s, req_topK = Some K\<rparr>) =
               (\<lparr>status = 200, body = ResultBody r\<rparr>, [ReadFile, EmbeddingsCreate s]) \<and>
             getRAGContext sim e (JStr s) (Some K) = (Inr r, [ReadFile, EmbeddingsCreate s]) \<and>
             length (topChunks r) = min (nat K) (length chunks) \<and>
             ((\<forall>c\<in>set chunks. sim qe (embedding c) \<noteq> NaN) \<longrightarrow>
                sorted_wrt js_ge (map top_similarity (topChunks r)))"
proof -
  define r where "r = expected_result sim qe chunks s (Some K)"
  have top: "topChunks r = map strip_embedding (take (nat K) (ranked sim qe chunks))"
    using assms(1) by (simp add: r_def expected_result_def js_slice_from_0)
  have len: "length (topChunks r) = min (nat K) (length chunks)"
    by (simp add: top length_ranked)
  have ord: "sorted_wrt js_ge (map top_similarity (topChunks r))"
    if "\<forall>c\<in>set chunks. sim qe (embedding c) \<noteq> NaN"
    unfolding top top_similarity_strip take_map [symmetric]
    by (rule sorted_wrt_take [OF ranked_descending [where sim = sim and qe = qe, OF that]])
  from run_succeeds [OF assms(2-5), of sim "Some K"] len ord show ?thesis
    unfolding r_def by blast
qed

theorem topChunks_length_sorted_witness:
  "POST cosineSimilarity demo_env (Inr \<lparr>req_question = JStr ''exam date'', req_topK = Some 3\<rparr>) =
     (\<lparr>status = 200,
       body = ResultBody
         \<lparr>topChunks =
            [\<lparr>top_chunk_id = 1, top_text = ''exams'', top_similarity = Fin 1\<rparr>,
             \<lparr>top_chunk_id = 0, top_text = ''grading'', top_similarity = Fin 0\<rparr>,
             \<lparr>top_chunk_id = 2, top_text = ''labs'', top_similarity = Fin 0\<rparr>],
          context =
            ''exams'' @ [CHR 0x0A, CHR ''-'', CHR ''-'', CHR ''-'', CHR 0x0A] @ ''grading'' @
            [CHR 0x0A, CHR ''-'', CHR ''-'', CHR ''-'', CHR 0x0A] @ ''labs'',
          question = ''exam date''\<rparr>\<rparr>,
      [ReadFile, EmbeddingsCreate ''exam date'']) \<and>
   getRAGContext cosineSimilarity demo_env (JStr ''exam date'') (Some 3) =
     (Inr \<lparr>topChunks =
            [\<lparr>top_chunk_id = 1, top_text = ''exams'', top_similarity = Fin 1\<rparr>,
             \<lparr>top_chunk_id = 0, top_text = ''grading'', top_similarity = Fin 0\<rparr>,
             \<lparr>top_chunk_id = 2, top_text = ''labs'', top_similarity = Fin 0\<rparr>],
          context =
            ''exams'' @ [CHR 0x0A, CHR ''-'', CHR ''-'', CHR ''-'', CHR 0x0A] @ ''grading'' @
            [CHR 0x0A, CHR ''-'', CHR ''-'', CHR ''-'', CHR 0x0A] @ ''labs'',
          question = ''exam date''\<rparr>,
      [ReadFile, EmbeddingsCreate ''exam date'']) \<and>
   length [\<lparr>top_chunk_id = 1, top_text = ''exams'', top_similarity = Fin 1\<rparr>,
           \<lparr>top_chunk_id = 0, top_text = ''grading'', top_similarity = Fin 0\<rparr>,
           \<lparr>top_chunk_id = 2, top_text = ''labs'', top_similarity = Fin 0\<rparr>]
     = min (nat 3) (length demo_chunks) \<and>
   sorted_wrt js_ge [Fin 1, Fin 0, Fin 0]"
proof -
  have h1: "(0::int) < 3" by simp
  have h2: "''exam date'' \<noteq> []" by simp
  have h3: "corpus_file demo_env = Inr (Chunks demo_chunks)" by (simp add: env_simps)
  have h4: "\<not> key_missing demo_env" by (simp add: env_simps)
  have h5: "embeddings_create demo_env ''exam date'' = Inr [1, 0]" by (simp add: env_simps)
  have h6: "\<forall>c\<in>set demo_chunks. cosineSimilarity [1, 0] (embedding c) \<noteq> NaN"
    by (simp add: demo_chunks_def cosine_values)
  from topChunks_length_sorted [OF h1 h2 h3 h4 h5, of cosineSimilarity] h6
  obtain r where r:
    "POST cosineSimilarity demo_env (Inr \<lparr>req_question = JStr ''exam date'', req_topK = Some 3\<rparr>) =
       (\<lparr>status = 200, body = ResultBody r\<rparr>, [ReadFile, EmbeddingsCreate ''exam date''])"
    "getRAGContext cosineSimilarity demo_env (JStr ''exam date'') (Some 3) =
       (Inr r, [ReadFile, EmbeddingsCreate ''exam date''])"
    "length (topChunks r) = min (nat 3) (length demo_chunks)"
    "sorted_wrt js_ge (map top_similarity (topChunks r))"
    by blast
  from r(1) demo_POST have "r =
     \<lparr>topChunks =
        [\<lparr>top_chunk_id = 1, top_text = ''exams'', top_similarity = Fin 1\<rparr>,
         \<lparr>top_chunk_id = 0, top_text = ''grading'', top_similarity = Fin 0\<rparr>,
         \<lparr>top_chunk_id = 2, top_text = ''labs'', top_similarity = Fin 0\<rparr>],
      context =
        ''exams'' @ [CHR 0x0A, CHR ''-'', CHR ''-'', CHR ''-'', CHR 0x0A] @ ''grading'' @
        [CHR 0x0A, CHR ''-'', CHR ''-'', CHR ''-'', CHR 0x0A] @ ''labs'',
      question = ''exam date''\<rparr>"
    by simp
  with r show ?thesis by simp
qed

text \<open>
  C2. A retrieval with a valid question, a corpus that loads and an embedding that is
  delivered succeeds with a context that is the texts of its topChunks, which are the texts
  of the first chunks of the ranked corpus in that order, with the five characters line
  feed, hyphen, hyphen, hyphen, line feed between each two; for a single top chunk it is
  that chunk's text.
\<close>

theorem context_joins_top_texts:
  assumes "s \<noteq> []" and "corpus_file e = Inr (Chunks chunks)"
    and "\<not> key_missing e" and "embeddings_create e s = Inr qe"
  shows "\<exists>r. POST sim e (Inr \<lparr>req_question = JStr s, req_topK = k\<rparr>) =
               (\<lparr>status = 200, body = ResultBody r\<rparr>, [ReadFile, EmbeddingsCreate s]) \<and>
             getRAGContext sim e (JStr s) k = (Inr r, [ReadFile, EmbeddingsCreate s]) \<and>
             map top_text (topChunks r) =
               map text (js_slice (ranked sim qe chunks) 0 (case k of None \<Rightarrow> 4 | Some n \<Rightarrow> n)) \<and>
             context r =
               (case map top_text (topChunks r) of
                  [] \<Rightarrow> []
                | x # xs \<Rightarrow>
                    x @ concat (map (\<lambda>y. [CHR 0x0A, CHR ''-'', CHR ''-'', CHR ''-'', CHR 0x0A] @ y) xs)) \<and>
             (\<forall>t. topChunks r = [t] \<longrightarrow> context r = top_text t)"
proof -
  define r where "r = expected_result sim qe chunks s k"
  have texts: "map top_text (topChunks r) =
      map text (js_slice (ranked sim qe chunks) 0 (case k of None \<Rightarrow> 4 | Some n \<Rightarrow> n))"
    by (simp only: r_def expected_result_def RetrievalResult.simps top_text_strip)
  have "context r =
      js_join (map top_text (topChunks r)) [CHR 0x0A, CHR ''-'', CHR ''-'', CHR ''-'', CHR 0x0A]"
    unfolding texts by (simp add: r_def expected_result_def)
  then have ctx: "context r =
      (case map top_text (topChunks r) of
         [] \<Rightarrow> []
       | x # xs \<Rightarrow>
           x @ concat (map (\<lambda>y. [CHR 0x0A, CHR ''-'', CHR ''-'', CHR ''-'', CHR 0x0A] @ y) xs))"
    by (simp only: js_join_concat)
  then have one: "\<forall>t. topChunks r = [t] \<longrightarrow> context r = top_text t" by simp
  from run_succeeds [OF assms, of sim k] texts ctx one show ?thesis
    unfolding r_def by blast
qed

theorem context_joins_top_texts_witness:
  "getRAGContext cosineSimilarity demo_env (JStr ''exam date'') (Some 3) =
     (Inr \<lparr>topChunks =
            [\<lparr>top_chunk_id = 1, top_text = ''exams'', top_similarity = Fin 1\<rparr>,
             \<lparr>top_chunk_id = 0, top_text = ''grading'', top_similarity = Fin 0\<rparr>,
             \<lparr>top_chunk_id = 2, top_text = ''labs'', top_similarity = Fin 0\<rparr>],
          context =
            [CHR ''e'', CHR ''x'', CHR ''a'', CHR ''m'', CHR ''s'',
             CHR 0x0A, CHR ''-'', CHR ''-'', CHR ''-'', CHR 0x0A,
             CHR ''g'', CHR ''r'', CHR ''a'', CHR ''d'', CHR ''i'', CHR ''n'', CHR ''g'',
             CHR 0x0A, CHR ''-'', CHR ''-'', CHR ''-'', CHR 0x0A,
             CHR ''l'', CHR ''a'', CHR ''b'', CHR ''s''],
          question = ''exam date''\<rparr>,
      [ReadFile, EmbeddingsCreate ''exam date'']) \<and>
   getRAGContext cosineSimilarity demo_env (JStr ''exam date'') (Some 1) =
     (Inr \<lparr>topChunks = [\<lparr>top_chunk_id = 1, top_text = ''exams'', top_similarity = Fin 1\<rparr>],
          context = ''exams'',
          question = ''exam date''\<rparr>,
      [ReadFile, EmbeddingsCreate ''exam date''])"
proof -
  have h2: "''exam date'' \<noteq> []" by simp
  have h3: "corpus_file demo_env = Inr (Chunks demo_chunks)" by (simp add: env_simps)
  have h4: "\<not> key_missing demo_env" by (simp add: env_simps)
  have h5: "embeddings_create demo_env ''exam date'' = Inr [1, 0]" by (simp add: env_simps)
  note t = context_joins_top_texts [OF h2 h3 h4 h5, of cosineSimilarity]
  from t [of "Some 3"] obtain r3 where r3:
    "POST cosineSimilarity demo_env (Inr \<lparr>req_question = JStr ''exam date'', req_topK = Some 3\<rparr>) =
       (\<lparr>status = 200, body = ResultBody r3\<rparr>, [ReadFile, EmbeddingsCreate ''exam date''])"
    "getRAGContext cosineSimilarity demo_env (JStr ''exam date'') (Some 3) =
       (Inr r3, [ReadFile, EmbeddingsCreate ''exam date''])"
    "context r3 =
       (case map top_text (topChunks r3) of
          [] \<Rightarrow> []
        | x # xs \<Rightarrow>
            x @ concat (map (\<lambda>y. [CHR 0x0A, CHR ''-'', CHR ''-'', CHR ''-'', CHR 0x0A] @ y) xs))"
    by blast
  from t [of "Some 1"] obtain r1 where r1:
    "POST cosineSimilarity demo_env (Inr \<lparr>req_question = JStr ''exam date'', req_topK = Some 1\<rparr>) =
       (\<lparr>status = 200, body = ResultBody r1\<rparr>, [ReadFile, EmbeddingsCreate ''exam date''])"
    "getRAGContext cosineSimilarity demo_env (JStr ''exam date'') (Some 1) =
       (Inr r1, [ReadFile, EmbeddingsCreate ''exam date''])"
    "\<forall>t. topChunks r1 = [t] \<longrightarrow> context r1 = top_text t"
    by blast
  from r3(1) demo_POST have "topChunks r3 =
        [\<lparr>top_chunk_id = 1, top_text = ''exams'', top_similarity = Fin 1\<rparr>,
         \<lparr>top_chunk_id = 0, top_text = ''grading'', top_similarity = Fin 0\<rparr>,
         \<lparr>top_chunk_id = 2, top_text = ''labs'', top_similarity = Fin 0\<rparr>]"
    "question r3 = ''exam date''"
    by auto
  with r3(3) have "r3 =
     \<lparr>topChunks =
        [\<lparr>top_chunk_id = 1, top_text = ''exams'', top_similarity = Fin 1\<rparr>,
         \<lparr>top_chunk_id = 0, top_text = ''grading'', top_similarity = Fin 0\<rparr>,
         \<lparr>top_chunk_id = 2, top_text = ''labs'', top_similarity = Fin 0\<rparr>],
      context =
        [CHR ''e'', CHR ''x'', CHR ''a'', CHR ''m'', CHR ''s'',
         CHR 0x0A, CHR ''-'', CHR ''-'', CHR ''-'', CHR 0x0A,
         CHR ''g'', CHR ''r'', CHR ''a'', CHR ''d'', CHR ''i'', CHR ''n'', CHR ''g'',
         CHR 0x0A, CHR ''-'', CHR ''-'', CHR ''-'', CHR 0x0A,
         CHR ''l'', CHR ''a'', CHR ''b'', CHR ''s''],
      question = ''exam date''\<rparr>"
    by (cases r3) simp
  moreover
  from r1(1) demo_POST_top1 have "topChunks r1 =
        [\<lparr>top_chunk_id = 1, top_text = ''exams'', top_similarity = Fin 1\<rparr>]"
    "question r1 = ''exam date''"
    by auto
  with r1(3) have "r1 =
     \<lparr>topChunks = [\<lparr>top_chunk_id = 1, top_text = ''exams'', top_similarity = Fin 1\<rparr>],
      context = ''exams'', question = ''exam date''\<rparr>"
    by (cases r1) simp
  ultimately show ?thesis using r3(2) r1(2) by simp
qed

text \<open>
  C6, as the spec has it, fails: with one chunk whose embedding is the zero vector, chunk
  7 is ranked before chunk 5, which has the same similarity and stands earlier in the
  corpus.
\<close>

theorem nan_score_reorders_tie:
  "map chunk_id tie_chunks = [0, 1, 2, 3, 4, 5, 6, 7] \<and>
   map similarity (map (score cosineSimilarity [1, 0]) tie_chunks) =
     [Fin 1, Fin 1, Fin 1, Fin (- 1), NaN, Fin 0, Fin (- 1), Fin 0] \<and>
   getRAGContext cosineSimilarity env_tie (JStr ''exam date'') (Some 8) =
     (Inr \<lparr>topChunks =
             [\<lparr>top_chunk_id = 0, top_text = ''c0'', top_similarity = Fin 1\<rparr>,
              \<lparr>top_chunk_id = 1, top_text = ''c1'', top_similarity = Fin 1\<rparr>,
              \<lparr>top_chunk_id = 2, top_text = ''c2'', top_similarity = Fin 1\<rparr>,
              \<lparr>top_chunk_id = 7, top_text = ''c7'', top_similarity = Fin 0\<rparr>,
              \<lparr>top_chunk_id = 3, top_text = ''c3'', top_similarity = Fin (- 1)\<rparr>,
              \<lparr>top_chunk_id = 4, top_text = ''c4'', top_similarity = NaN\<rparr>,
              \<lparr>top_chunk_id = 5, top_text = ''c5'', top_similarity = Fin 0\<rparr>,
              \<lparr>top_chunk_id = 6, top_text = ''c6'', top_similarity = Fin (- 1)\<rparr>],
           context =
             ''c0'' @ [CHR 0x0A, CHR ''-'', CHR ''-'', CHR ''-'', CHR 0x0A] @
             ''c1'' @ [CHR 0x0A, CHR ''-'', CHR ''-'', CHR ''-'', CHR 0x0A] @
             ''c2'' @ [CHR 0x0A, CHR ''-'', CHR ''-'', CHR ''-'', CHR 0x0A] @
             ''c7'' @ [CHR 0x0A, CHR ''-'', CHR ''-'', CHR ''-'', CHR 0x0A] @
             ''c3'' @ [CHR 0x0A, CHR ''-'', CHR ''-'', CHR ''-'', CHR 0x0A] @
             ''c4'' @ [CHR 0x0A, CHR ''-'', CHR ''-'', CHR ''-'', CHR 0x0A] @
             ''c5'' @ [CHR 0x0A, CHR ''-'', CHR ''-'', CHR ''-'', CHR 0x0A] @
             ''c6'',
           question = ''exam date''\<rparr>,
      [ReadFile, EmbeddingsCreate ''exam date''])"
  by (simp add: getRAGContext_valid env_simps expected_result_def tie_ranked js_slice_def
      strip_embedding_def)
     (simp add: tie_chunks_def similarity_score cosine_values)

text \<open>
  C6, amended. When no chunk's similarity to the query is NaN, the ranking is stable: for
  every similarity value, the chunks of topChunks with that value are the first chunks of
  the corpus with that value, in corpus order. So of two chunks with equal scores, the one
  earlier in the corpus file is earlier in topChunks.
\<close>

theorem ties_keep_corpus_order:
  assumes "s \<noteq> []" and "corpus_file e = Inr (Chunks chunks)"
    and "\<not> key_missing e" and "embeddings_create e s = Inr qe"
    and "\<forall>c\<in>set chunks. sim qe (embedding c) \<noteq> NaN"
  shows "\<exists>r. POST sim e (Inr \<lparr>req_question = JStr s, req_topK = k\<rparr>) =
               (\<lparr>status = 200, body = ResultBody r\<rparr>, [ReadFile, EmbeddingsCreate s]) \<and>
             getRAGContext sim e (JStr s) k = (Inr r, [ReadFile, EmbeddingsCreate s]) \<and>
             prefix (filter (\<lambda>t. top_similarity t = v) (topChunks r))
               (map strip_embedding
                  (filter (\<lambda>c. similarity c = v) (map (score sim qe) chunks)))"
proof -
  define r where "r = expected_result sim qe chunks s k"
  obtain n where top: "topChunks r = map strip_embedding (take n (ranked sim qe chunks))"
    by (simp add: r_def expected_result_def js_slice_from_0)
  have "filter (\<lambda>t. top_similarity t = v) (topChunks r)
        = map strip_embedding (filter (\<lambda>c. similarity c = v) (take n (ranked sim qe chunks)))"
    by (simp add: top filter_map o_def strip_embedding_def)
  moreover have "prefix (filter (\<lambda>c. similarity c = v) (take n (ranked sim qe chunks)))
                   (filter (\<lambda>c. similarity c = v) (ranked sim qe chunks))"
    by (rule filter_mono_prefix [OF take_is_prefix])
  ultimately have "prefix (filter (\<lambda>t. top_similarity t = v) (topChunks r))
      (map strip_embedding (filter (\<lambda>c. similarity c = v) (map (score sim qe) chunks)))"
    by (simp add: ranked_stable [where sim = sim and qe = qe, OF assms(5), symmetric]
        map_mono_prefix)
  with run_succeeds [OF assms(1-4), of sim k] show ?thesis
    unfolding r_def by blast
qed

theorem ties_keep_corpus_order_witness:
  "getRAGContext cosineSimilarity demo_env (JStr ''exam date'') (Some 3) =
     (Inr \<lparr>topChunks =
            [\<lparr>top_chunk_id = 1, top_text = ''exams'', top_similarity = Fin 1\<rparr>,
             \<lparr>top_chunk_id = 0, top_text = ''grading'', top_similarity = Fin 0\<rparr>,
             \<lparr>top_chunk_id = 2, top_text = ''labs'', top_similarity = Fin 0\<rparr>],
          context =
            ''exams'' @ [CHR 0x0A, CHR ''-'', CHR ''-'', CHR ''-'', CHR 0x0A] @ ''grading'' @
            [CHR 0x0A, CHR ''-'', CHR ''-'', CHR ''-'', CHR 0x0A] @ ''labs'',
          question = ''exam date''\<rparr>,
      [ReadFile, EmbeddingsCreate ''exam date'']) \<and>
   prefix
     [\<lparr>top_chunk_id = 0, top_text = ''grading'', top_similarity = Fin 0\<rparr>,
      \<lparr>top_chunk_id = 2, top_text = ''labs'', top_similarity = Fin 0\<rparr>]
     (map strip_embedding
        (filter (\<lambda>c. similarity c = Fin 0) (map (score cosineSimilarity [1, 0]) demo_chunks)))"
proof -
  have h2: "''exam date'' \<noteq> []" by simp
  have h3: "corpus_file demo_env = Inr (Chunks demo_chunks)" by (simp add: env_simps)
  have h4: "\<not> key_missing demo_env" by (simp add: env_simps)
  have h5: "embeddings_create demo_env ''exam date'' = Inr [1, 0]" by (simp add: env_simps)
  have h6: "\<forall>c\<in>set demo_chunks. cosineSimilarity [1, 0] (embedding c) \<noteq> NaN"
    by (simp add: demo_chunks_def cosine_values)
  from ties_keep_corpus_order
    [where sim = cosineSimilarity and qe = "[1, 0]" and k = "Some 3" and v = "Fin 0",
     OF h2 h3 h4 h5 h6]
  obtain r where r:
    "POST cosineSimilarity demo_env (Inr \<lparr>req_question = JStr ''exam date'', req_topK = Some 3\<rparr>) =
       (\<lparr>status = 200, body = ResultBody r\<rparr>, [ReadFile, EmbeddingsCreate ''exam date''])"
    "getRAGContext cosineSimilarity demo_env (JStr ''exam date'') (Some 3) =
       (Inr r, [ReadFile, EmbeddingsCreate ''exam date''])"
    "prefix (filter (\<lambda>t. top_similarity t = Fin 0) (topChunks r))
       (map strip_embedding
          (filter (\<lambda>c. similarity c = Fin 0) (map (score cosineSimilarity [1, 0]) demo_chunks)))"
    by blast
  from r(1) demo_POST have "r =
     \<lparr>topChunks =
        [\<lparr>top_chunk_id = 1, top_text = ''exams'', top_similarity = Fin 1\<rparr>,
         \<lparr>top_chunk_id = 0, top_text = ''grading'', top_similarity = Fin 0\<rparr>,
         \<lparr>top_chunk_id = 2, top_text = ''labs'', top_similarity = Fin 0\<rparr>],
      context =
        ''exams'' @ [CHR 0x0A, CHR ''-'', CHR ''-'', CHR ''-'', CHR 0x0A] @ ''grading'' @
        [CHR 0x0A, CHR ''-'', CHR ''-'', CHR ''-'', CHR 0x0A] @ ''labs'',
      question = ''exam date''\<rparr>"
    by simp
  with r(2,3) show ?thesis by simp
qed

text \<open>
  C8. In every successful retrieval the question of the result is the caller's question
  string, and each entry of topChunks carries the chunk_id and text of a corpus chunk and
  its similarity to the query, and nothing else: the type of an entry has no embedding.
\<close>

theorem result_entries_and_question:
  assumes "corpus_file e = Inr (Chunks chunks)" and "embeddings_create e s = Inr qe"
    and "POST sim e (Inr \<lparr>req_question = JStr s, req_topK = k\<rparr>) =
           (\<lparr>status = 200, body = ResultBody r\<rparr>, evs)
         \<or> getRAGContext sim e (JStr s) k = (Inr r, evs)"
  shows "question r = s \<and>
         (\<forall>t \<in> set (topChunks r). \<exists>c \<in> set chunks.
            t = \<lparr>top_chunk_id = chunk_id c, top_text = text c,
                 top_similarity = sim qe (embedding c)\<rparr>)"
proof -
  from success_D [OF assms(3)] assms(1,2) have
    r: "r = expected_result sim qe chunks s k" by auto
  obtain n where top: "topChunks r = map strip_embedding (take n (ranked sim qe chunks))"
    by (simp add: r expected_result_def js_slice_from_0)
  have "set (topChunks r) \<subseteq> strip_embedding ` score sim qe ` set chunks"
    using set_take_subset [of n "ranked sim qe chunks"] by (auto simp: top set_ranked)
  moreover have "strip_embedding (score sim qe c) =
      \<lparr>top_chunk_id = chunk_id c, top_text = text c, top_similarity = sim qe (embedding c)\<rparr>" for c
    by (simp add: strip_embedding_def score_def SyllabusChunk.defs)
  moreover have "question r = s" by (simp add: r expected_result_def)
  ultimately show ?thesis by auto
qed

theorem result_entries_and_question_witness:
  "corpus_file demo_env = Inr (Chunks demo_chunks) \<and>
   embeddings_create demo_env ''exam date'' = Inr [1, 0] \<and>
   question
     \<lparr>topChunks =
        [\<lparr>top_chunk_id = 1, top_text = ''exams'', top_similarity = Fin 1\<rparr>,
         \<lparr>top_chunk_id = 0, top_text = ''grading'', top_similarity = Fin 0\<rparr>,
         \<lparr>top_chunk_id = 2, top_text = ''labs'', top_similarity = Fin 0\<rparr>],
      context =
        ''exams'' @ [CHR 0x0A, CHR ''-'', CHR ''-'', CHR ''-'', CHR 0x0A] @ ''grading'' @
        [CHR 0x0A, CHR ''-'', CHR ''-'', CHR ''-'', CHR 0x0A] @ ''labs'',
      question = ''exam date''\<rparr> = ''exam date'' \<and>
   (\<exists>c \<in> set demo_chunks.
      \<lparr>top_chunk_id = 2, top_text = ''labs'', top_similarity = Fin 0\<rparr> =
      \<lparr>top_chunk_id = chunk_id c, top_text = text c,
       top_similarity = cosineSimilarity [1, 0] (embedding c)\<rparr>)"
proof -
  have h1: "corpus_file demo_env = Inr (Chunks demo_chunks)" by (simp add: env_simps)
  have h2: "embeddings_create demo_env ''exam date'' = Inr [1, 0]" by (simp add: env_simps)
  note run = result_entries_and_question [OF h1 h2 disjI1 [OF demo_POST]]
  from run have "\<exists>c \<in> set demo_chunks.
      \<lparr>top_chunk_id = 2, top_text = ''labs'', top_similarity = Fin 0\<rparr> =
      \<lparr>top_chunk_id = chunk_id c, top_text = text c,
       top_similarity = cosineSimilarity [1, 0] (embedding c)\<rparr>"
    by simp
  with h1 h2 run show ?thesis by blast
qed

text \<open>
  C9. The route handler with the pipeline inline and getRAGContext succeed on the same
  inputs, with the same result (topChunks, context and question) and the same external
  calls.
\<close>

theorem inline_route_agrees_with_library:
  "getRAGContext sim e q k = (Inr r, evs) \<longleftrightarrow>
   POST sim e (Inr \<lparr>req_question = q, req_topK = k\<rparr>) =
     (\<lparr>status = 200, body = ResultBody r\<rparr>, evs)"
proof (cases q rule: question_cases)
  case (valid s)
  then show ?thesis
    by (auto simp: getRAGContext_valid POST_valid split: sum.splits parsed_corpus.splits)
next
  case invalid
  then show ?thesis by (simp add: getRAGContext_invalid POST_invalid)
qed

theorem inline_route_agrees_with_library_witness:
  "getRAGContext cosineSimilarity demo_env (JStr ''exam date'') (Some 3) =
     (Inr \<lparr>topChunks =
             [\<lparr>top_chunk_id = 1, top_text = ''exams'', top_similarity = Fin 1\<rparr>,
              \<lparr>top_chunk_id = 0, top_text = ''grading'', top_similarity = Fin 0\<rparr>,
              \<lparr>top_chunk_id = 2, top_text = ''labs'', top_similarity = Fin 0\<rparr>],
           context =
             ''exams'' @ [CHR 0x0A, CHR ''-'', CHR ''-'', CHR ''-'', CHR 0x0A] @ ''grading'' @
             [CHR 0x0A, CHR ''-'', CHR ''-'', CHR ''-'', CHR 0x0A] @ ''labs'',
           question = ''exam date''\<rparr>,
      [ReadFile, EmbeddingsCreate ''exam date''])"
  by (rule iffD2 [OF inline_route_agrees_with_library demo_POST])

text \<open>
  C10. topK is not validated. With a valid question no request is answered 400, topK = 0
  succeeds with no top chunks and the empty context, and a negative topK succeeds too, with
  all but the last |topK| chunks of the ranked corpus.
\<close>

theorem topK_not_validated:
  assumes "s \<noteq> []" and "corpus_file e = Inr (Chunks chunks)" and "\<not> key_missing e"
    and "embeddings_create e s = Inr qe"
  shows "POST sim e (Inr \<lparr>req_question = JStr s, req_topK = Some 0\<rparr>) =
           (\<lparr>status = 200,
             body = ResultBody \<lparr>topChunks = [], context = [], question = s\<rparr>\<rparr>,
            [ReadFile, EmbeddingsCreate s]) \<and>
         getRAGContext sim e (JStr s) (Some 0) =
           (Inr \<lparr>topChunks = [], context = [], question = s\<rparr>,
            [ReadFile, EmbeddingsCreate s]) \<and>
         status (fst (POST sim e' (Inr \<lparr>req_question = JStr s, req_topK = k'\<rparr>))) \<noteq> 400 \<and>
         (k < 0 \<longrightarrow>
            (\<exists>r. POST sim e (Inr \<lparr>req_question = JStr s, req_topK = Some k\<rparr>) =
                   (\<lparr>status = 200, body = ResultBody r\<rparr>, [ReadFile, EmbeddingsCreate s]) \<and>
                 getRAGContext sim e (JStr s) (Some k) = (Inr r, [ReadFile, EmbeddingsCreate s]) \<and>
                 topChunks r =
                   map strip_embedding
                     (take (length chunks - nat (- k)) (ranked sim qe chunks))))"
proof -
  have "status (fst (POST sim e' (Inr \<lparr>req_question = JStr s, req_topK = k'\<rparr>))) \<noteq> 400"
    using assms(1) by (simp add: POST_valid split: sum.splits parsed_corpus.splits)
  with assms show ?thesis
    by (simp add: POST_valid getRAGContext_valid expected_result_def js_slice_from_0 length_ranked)
qed

theorem topK_not_validated_witness:
  "POST cosineSimilarity demo_env (Inr \<lparr>req_question = JStr ''exam date'', req_topK = Some 0\<rparr>) =
     (\<lparr>status = 200,
       body = ResultBody \<lparr>topChunks = [], context = [], question = ''exam date''\<rparr>\<rparr>,
      [ReadFile, EmbeddingsCreate ''exam date'']) \<and>
   (\<exists>r. getRAGContext cosineSimilarity demo_env (JStr ''exam date'') (Some (- 1)) =
          (Inr r, [ReadFile, EmbeddingsCreate ''exam date'']) \<and>
        topChunks r =
          [\<lparr>top_chunk_id = 1, top_text = ''exams'', top_similarity = Fin 1\<rparr>,
           \<lparr>top_chunk_id = 0, top_text = ''grading'', top_similarity = Fin 0\<rparr>,
           \<lparr>top_chunk_id = 2, top_text = ''labs'', top_similarity = Fin 0\<rparr>])"
proof -
  have s: "''exam date'' \<noteq> []" by simp
  have h1: "corpus_file demo_env = Inr (Chunks demo_chunks)" by (simp add: env_simps)
  have h2: "\<not> key_missing demo_env" by (simp add: env_simps)
  have h3: "embeddings_create demo_env ''exam date'' = Inr [1, 0]" by (simp add: env_simps)
  have k: "(- 1 :: int) < 0" by simp
  note t = topK_not_validated [OF s h1 h2 h3, of cosineSimilarity env_without_corpus None "- 1"]
  have len: "length demo_chunks = 4" by (simp add: demo_chunks_def)
  have top: "map strip_embedding
       (take (length demo_chunks - nat (- (- 1))) (ranked cosineSimilarity [1, 0] demo_chunks)) =
     [\<lparr>top_chunk_id = 1, top_text = ''exams'', top_similarity = Fin 1\<rparr>,
      \<lparr>top_chunk_id = 0, top_text = ''grading'', top_similarity = Fin 0\<rparr>,
      \<lparr>top_chunk_id = 2, top_text = ''labs'', top_similarity = Fin 0\<rparr>]"
    by (simp add: demo_ranked strip_embedding_def len)
  from t k top show ?thesis by auto
qed

section \<open>Failures of the pipeline\<close>

text \<open>
  C3. An empty question and a question that is not a string are rejected before anything
  is read or requested: the route handler answers 400 and getRAGContext throws, neither
  with any external call, whatever the corpus file and the credential are.
\<close>

theorem invalid_question_rejected:
  assumes "q = JStr [] \<or> typeof q \<noteq> ''string''"
  shows "POST sim e (Inr \<lparr>req_question = q, req_topK = k\<rparr>) =
           (\<lparr>status = 400, body = ErrorBody ''Missing or invalid question''\<rparr>, []) \<and>
         getRAGContext sim e q k =
           (Inl ''RAG processing failed: Missing or invalid question'', [])"
proof -
  from assms have "\<not> truthy q \<or> typeof q \<noteq> ''string''" by auto
  then show ?thesis by (simp add: POST_invalid getRAGContext_invalid)
qed

theorem invalid_question_rejected_witness:
  "corpus_file demo_env = Inr (Chunks demo_chunks) \<and> key_missing demo_env = False \<and>
   POST cosineSimilarity demo_env (Inr \<lparr>req_question = JStr [], req_topK = None\<rparr>) =
     (\<lparr>status = 400, body = ErrorBody ''Missing or invalid question''\<rparr>, []) \<and>
   getRAGContext cosineSimilarity demo_env (JNum 7) None =
     (Inl ''RAG processing failed: Missing or invalid question'', [])"
proof -
  have h1: "JStr [] = JStr [] \<or> typeof (JStr []) \<noteq> ''string''" by simp
  have h2: "JNum 7 = JStr [] \<or> typeof (JNum 7) \<noteq> ''string''" by simp
  from invalid_question_rejected [OF h1, of cosineSimilarity demo_env None]
    invalid_question_rejected [OF h2, of cosineSimilarity demo_env None]
  show ?thesis by (simp add: env_simps)
qed

text \<open>
  C5, as the spec has it, fails: a run whose credential is the empty string and a run whose
  remote call fails surface the same error, from both forms of the route handler and from
  getRAGContext. Both modules load, both questions are valid and both corpora load.
\<close>

theorem credential_and_remote_failure_indistinguishable:
  "module_loads env_empty_key \<and> key_missing env_empty_key \<and>
   module_loads env_remote_failure \<and> key_missing env_remote_failure = False \<and>
   embeddings_create env_remote_failure ''exam date'' = Inl ''429 You exceeded your current quota'' \<and>
   fst (POST cosineSimilarity env_empty_key
          (Inr \<lparr>req_question = JStr ''exam date'', req_topK = None\<rparr>))
   = fst (POST cosineSimilarity env_remote_failure
          (Inr \<lparr>req_question = JStr ''exam date'', req_topK = None\<rparr>)) \<and>
   fst (POST_delegating cosineSimilarity env_empty_key
          (Inr \<lparr>req_question = JStr ''exam date'', req_topK = None\<rparr>))
   = fst (POST_delegating cosineSimilarity env_remote_failure
          (Inr \<lparr>req_question = JStr ''exam date'', req_topK = None\<rparr>)) \<and>
   fst (getRAGContext cosineSimilarity env_empty_key (JStr ''exam date'') None)
   = fst (getRAGContext cosineSimilarity env_remote_failure (JStr ''exam date'') None)"
  by (simp add: POST_valid POST_delegating_valid getRAGContext_valid env_simps)

text \<open>
  C5, amended. With a valid question and a corpus file that is read and parsed, a credential
  that is the empty string and a failed remote call are answered alike: status 500 and
  one and the same body from either form of the route handler, one and the same Error from
  getRAGContext, so that the caller cannot tell the two apart. A variable that is unset
  when the module is loaded makes the module throw at load, and it answers no request. A
  corpus file that cannot be read or parsed is answered, before any embedding is requested,
  by the inline route handler with status 500 and the message of that error, and by
  getRAGContext with an Error of that message after the prefix "RAG processing failed: ".
\<close>

theorem embedding_failures_share_one_error:
  assumes "s \<noteq> []"
    and "module_loads e1" and "key_missing e1" and "corpus_file e1 = Inr c1"
    and "\<not> key_missing e2" and "embeddings_create e2 s = Inl m" and "corpus_file e2 = Inr c2"
  shows "(\<exists>answer.
            served e1 (fst (POST sim e1 (Inr \<lparr>req_question = JStr s, req_topK = k\<rparr>))) =
              Some answer \<and>
            served e2 (fst (POST sim e2 (Inr \<lparr>req_question = JStr s, req_topK = k\<rparr>))) =
              Some answer \<and>
            status answer = 500) \<and>
         (\<exists>answer.
            served e1
              (fst (POST_delegating sim e1 (Inr \<lparr>req_question = JStr s, req_topK = k\<rparr>))) =
              Some answer \<and>
            served e2
              (fst (POST_delegating sim e2 (Inr \<lparr>req_question = JStr s, req_topK = k\<rparr>))) =
              Some answer \<and>
            status answer = 500) \<and>
         (\<exists>err.
            served e1 (fst (getRAGContext sim e1 (JStr s) k)) = Some (Inl err) \<and>
            served e2 (fst (getRAGContext sim e2 (JStr s) k)) = Some (Inl err)) \<and>
         (OPENAI_API_KEY e3 = None \<longrightarrow>
            served e3 (POST sim e3 req) = None \<and>
            served e3 (POST_delegating sim e3 req) = None \<and>
            served e3 (getRAGContext sim e3 q k) = None) \<and>
         (module_loads e4 \<and> corpus_file e4 = Inl err4 \<longrightarrow>
            served e4 (POST sim e4 (Inr \<lparr>req_question = JStr s, req_topK = k\<rparr>)) =
              Some (\<lparr>status = 500, body = ErrorBody err4\<rparr>, [ReadFile]) \<and>
            served e4 (getRAGContext sim e4 (JStr s) k) =
              Some (Inl (''RAG processing failed: '' @ err4), [ReadFile]))"
proof -
  have l2: "module_loads e2"
    using assms(5) by (auto simp: module_loads_def key_missing_def split: option.splits)
  show ?thesis
    using assms l2
    by (simp add: served_def POST_valid POST_delegating_valid getRAGContext_valid
        module_loads_def)
qed

theorem embedding_failures_share_one_error_witness:
  "served env_empty_key
     (fst (POST cosineSimilarity env_empty_key
        (Inr \<lparr>req_question = JStr ''exam date'', req_topK = None\<rparr>))) =
     served env_remote_failure
       (fst (POST cosineSimilarity env_remote_failure
          (Inr \<lparr>req_question = JStr ''exam date'', req_topK = None\<rparr>))) \<and>
   served env_unset_key
     (POST cosineSimilarity env_unset_key
        (Inr \<lparr>req_question = JStr ''exam date'', req_topK = None\<rparr>)) = None \<and>
   served env_without_corpus
     (POST cosineSimilarity env_without_corpus
        (Inr \<lparr>req_question = JStr ''exam date'', req_topK = None\<rparr>)) =
     Some (\<lparr>status = 500, body = ErrorBody ''ENOENT: no such file or directory''\<rparr>, [ReadFile])"
proof -
  have s: "''exam date'' \<noteq> []" by simp
  have a: "module_loads env_empty_key" "key_missing env_empty_key"
    "corpus_file env_empty_key = Inr (Chunks demo_chunks)"
    by (simp_all add: env_simps)
  have b: "\<not> key_missing env_remote_failure"
    "embeddings_create env_remote_failure ''exam date'' = Inl ''429 You exceeded your current quota''"
    "corpus_file env_remote_failure = Inr (Chunks demo_chunks)"
    by (simp_all add: env_simps)
  have c: "OPENAI_API_KEY env_unset_key = None" by (simp add: env_unset_key_def)
  have d: "module_loads env_without_corpus \<and>
           corpus_file env_without_corpus = Inl ''ENOENT: no such file or directory''"
    by (simp add: env_simps)
  note t = embedding_failures_share_one_error
    [where ?e3.0 = env_unset_key and ?e4.0 = env_without_corpus and sim = cosineSimilarity
       and k = None and req = "Inr \<lparr>req_question = JStr ''exam date'', req_topK = None\<rparr>"
       and ?err4.0 = "''ENOENT: no such file or directory''" and q = JNull,
     OF s a b]
  from t obtain answer where
    "served env_empty_key
       (fst (POST cosineSimilarity env_empty_key
          (Inr \<lparr>req_question = JStr ''exam date'', req_topK = None\<rparr>))) = Some answer"
    "served env_remote_failure
       (fst (POST cosineSimilarity env_remote_failure
          (Inr \<lparr>req_question = JStr ''exam date'', req_topK = None\<rparr>))) = Some answer"
    by blast
  moreover from t c have "served env_unset_key
     (POST cosineSimilarity env_unset_key
        (Inr \<lparr>req_question = JStr ''exam date'', req_topK = None\<rparr>)) = None"
    by blast
  moreover from t d have "served env_without_corpus
     (POST cosineSimilarity env_without_corpus
        (Inr \<lparr>req_question = JStr ''exam date'', req_topK = None\<rparr>)) =
     Some (\<lparr>status = 500, body = ErrorBody ''ENOENT: no such file or directory''\<rparr>, [ReadFile])"
    by blast
  ultimately show ?thesis by simp
qed

section \<open>Similarity of a vector with itself\<close>

lemma dot_self_nonneg: "0 \<le> dot v v"
proof -
  have "dot v v = sum_list (map (\<lambda>x. x * x) v)"
    by (simp add: dot_def zip_same_conv_map o_def)
  moreover have "0 \<le> sum_list (map (\<lambda>x. x * x) v)"
    by (rule sum_list_nonneg) auto
  ultimately show ?thesis by simp
qed

text \<open>
  C7. The cosine similarity of a vector of nonzero magnitude with itself is 1, so a chunk
  whose embedding is the query embedding scores 1.
\<close>

theorem cosine_of_vector_with_itself:
  assumes "magnitude v \<noteq> 0"
  shows "cosineSimilarity v v = Fin 1 \<and>
         similarity (score cosineSimilarity v (c\<lparr>embedding := v\<rparr>)) = Fin 1"
proof -
  have "magnitude v * magnitude v = dot v v"
    using dot_self_nonneg [of v] by (simp add: magnitude_def)
  moreover from assms have "dot v v \<noteq> 0" by (auto simp: magnitude_def)
  ultimately have "cosineSimilarity v v = Fin 1" by (simp add: cosineSimilarity_def js_div_def)
  then show ?thesis by (simp add: score_def SyllabusChunk.defs)
qed

theorem cosine_of_vector_with_itself_witness:
  "magnitude [3, 4] \<noteq> 0 \<and> cosineSimilarity [3, 4] [3, 4] = Fin 1"
proof -
  have h: "magnitude [3, 4] \<noteq> 0" by (simp add: magnitude_def dot_def)
  from cosine_of_vector_with_itself [OF h] h show ?thesis by blast
qed

section \<open>Graceful degradation of the chat endpoint\<close>

text \<open>
  C4. When the retrieval call of the chat handler fails (fetch rejects, the status is not
  in the 200 range, or reading the answer throws), ragContext stays empty and the handler
  goes on to streamText with the system prompt alone.
\<close>

theorem chat_proceeds_without_context:
  assumes "retrieval_failed (fetch (userMessageText parts))"
  shows "ragContext_of fmt fetch parts = [] \<and>
         chat_after_retrieval base fmt fetch parts = StreamText base"
proof -
  have "ragContext_of fmt fetch parts = []"
    using assms
    by (cases "fetch (userMessageText parts)")
       (auto simp: ragContext_of_def split: option.splits)
  then show ?thesis by (simp add: chat_after_retrieval_def)
qed

theorem chat_proceeds_without_context_witness:
  "js_trim (userMessageText demo_parts) \<noteq> [] \<and>
   retrieval_failed (fetch_refused (userMessageText demo_parts)) \<and>
   retrieval_failed (fetch_status_500 (userMessageText demo_parts)) \<and>
   chat_after_retrieval ''You are a friendly assistant!'' no_fmt fetch_refused demo_parts =
     StreamText ''You are a friendly assistant!'' \<and>
   chat_after_retrieval ''You are a friendly assistant!'' no_fmt fetch_status_500 demo_parts =
     StreamText ''You are a friendly assistant!''"
proof -
  have t: "js_trim (userMessageText demo_parts) \<noteq> []"
    by (simp add: js_trim_def userMessageText_def demo_parts_def is_white_space_def)
  have h1: "retrieval_failed (fetch_refused (userMessageText demo_parts))"
    by (simp add: fetch_refused_def)
  have h2: "retrieval_failed (fetch_status_500 (userMessageText demo_parts))"
    by (simp add: fetch_status_500_def ok_def)
  from chat_proceeds_without_context [of fetch_refused demo_parts, OF h1]
    chat_proceeds_without_context [of fetch_status_500 demo_parts, OF h2] t h1 h2
  show ?thesis by blast
qed

end
